theory Spec2Isabelle
  imports Complex_Main "HOL-Library.Sublist"
begin

section \<open>Text as Python sees it\<close>

text \<open>
  A Python \<open>str\<close> is modelled as a \<open>string\<close>, one \<open>char\<close> per code point
  (code points below 256). The library functions the scripts call on text are written
  out for that range: \<open>str.rstrip\<close>, \<open>str.strip\<close>, \<open>str.splitlines\<close>, \<open>repr\<close>
  and the four regular expressions of the scripts.
\<close>

abbreviation newline :: char where
  "newline \<equiv> CHR 0x0A"

abbreviation squote :: char where
  "squote \<equiv> CHR 0x27"

abbreviation dquote :: char where
  "dquote \<equiv> CHR 0x22"

abbreviation backslash :: char where
  "backslash \<equiv> CHR 0x5C"

definition is_space :: "char \<Rightarrow> bool" where
  \<comment> \<open>\<open>str.isspace\<close> on one character: code points 9-13, 28-32, 133 and 160.\<close>
  "is_space c =
     (c \<in> set [CHR 0x09, CHR 0x0A, CHR 0x0B, CHR 0x0C, CHR 0x0D, CHR 0x1C, CHR 0x1D,
                CHR 0x1E, CHR 0x1F, CHR 0x20, CHR 0x85, CHR 0xA0])"

definition rstrip :: "string \<Rightarrow> string" where
  "rstrip s = rev (dropWhile is_space (rev s))"

definition strip :: "string \<Rightarrow> string" where
  "strip s = dropWhile is_space (rstrip s)"

definition is_linebreak :: "char \<Rightarrow> bool" where
  \<comment> \<open>the line boundaries of \<open>str.splitlines\<close> other than carriage return\<close>
  "is_linebreak c =
     (c \<in> set [CHR 0x0A, CHR 0x0B, CHR 0x0C, CHR 0x1C, CHR 0x1D, CHR 0x1E, CHR 0x85])"

fun split_acc :: "string \<Rightarrow> string \<Rightarrow> string list" where
  \<comment> \<open>the first argument is the line read so far, reversed\<close>
  "split_acc acc [] = (if acc = [] then [] else [rev acc])"
| "split_acc acc (c # cs) =
     (if c = CHR 0x0D then
        (case cs of
           [] \<Rightarrow> [rev acc]
         | d # ds \<Rightarrow> if d = newline then rev acc # split_acc [] ds
                    else rev acc # split_acc [] (d # ds))
      else if is_linebreak c then rev acc # split_acc [] cs
      else split_acc (c # acc) cs)"

definition splitlines :: "string \<Rightarrow> string list" where
  "splitlines s = split_acc [] s"

definition hex_digit :: "nat \<Rightarrow> char" where
  "hex_digit n = ''0123456789abcdef'' ! (n mod 16)"

definition repr_char :: "char \<Rightarrow> char \<Rightarrow> string" where
  \<comment> \<open>one character of \<open>repr\<close> of a \<open>str\<close>, given the quote chosen\<close>
  "repr_char q c =
     (if c = q \<or> c = backslash then [backslash, c]
      else if c = CHR 0x09 then [backslash, CHR ''t'']
      else if c = newline then [backslash, CHR ''n'']
      else if c = CHR 0x0D then [backslash, CHR ''r'']
      else if (of_char c :: nat) < 32 \<or> of_char c = (127 :: nat)
              \<or> (128 \<le> (of_char c :: nat) \<and> (of_char c :: nat) \<le> 160)
              \<or> of_char c = (173 :: nat)
           then [backslash, CHR ''x'', hex_digit (of_char c div 16), hex_digit (of_char c)]
      else [c])"

definition repr :: "string \<Rightarrow> string" where
  \<comment> \<open>\<open>%r\<close> of a \<open>str\<close>: single quotes unless the text has one and no double quote\<close>
  "repr s =
     (let q = (if squote \<in> set s \<and> dquote \<notin> set s then dquote else squote)
      in q # concat (map (repr_char q) s) @ [q])"

fun find_sub :: "string \<Rightarrow> string \<Rightarrow> string option" where
  \<comment> \<open>the text from the first occurrence of the pattern on\<close>
  "find_sub p [] = (if p = [] then Some [] else None)"
| "find_sub p (c # cs) = (if prefix p (c # cs) then Some (c # cs) else find_sub p cs)"

definition is_digit :: "char \<Rightarrow> bool" where
  "is_digit c = (c \<in> set ''0123456789'')"

definition percentage_re_search :: "string \<Rightarrow> string option" where
  \<comment> \<open>\<open>re.compile(r"^([0-9]+)% documentation coverage").search(line)\<close>: group 1\<close>
  "percentage_re_search line =
     (let digits = takeWhile is_digit line; rest = dropWhile is_digit line
      in if digits \<noteq> [] \<and> prefix ''% documentation coverage'' rest
         then Some digits else None)"

definition path_re_search :: "string \<Rightarrow> string option" where
  \<comment> \<open>\<open>re.compile(r"JacquardSDK/.*").search(line)\<close>: group 0; the dot stops at a newline\<close>
  "path_re_search line =
     map_option (takeWhile (\<lambda>c. c \<noteq> newline)) (find_sub ''JacquardSDK/'' line)"

definition ignore_re_search :: "string \<Rightarrow> bool" where
  \<comment> \<open>\<open>re.compile(r"NoBlockComments").search(line)\<close> as a truth value\<close>
  "ignore_re_search line = (find_sub ''NoBlockComments'' line \<noteq> None)"

definition greedy_until :: "string \<Rightarrow> string \<Rightarrow> string option" where
  \<comment> \<open>the longest prefix of the text that ends with the pattern\<close>
  "greedy_until p l = find (suffix p) (rev (prefixes l))"

fun xcresult_re_search :: "string \<Rightarrow> string option" where
  \<comment> \<open>\<open>re.search(r"/.*\.xcresult", stdout, re.MULTILINE)\<close>: group 0\<close>
  "xcresult_re_search [] = None"
| "xcresult_re_search (c # cs) =
     (if c = CHR ''/'' then
        (case greedy_until ''.xcresult'' (takeWhile (\<lambda>d. d \<noteq> newline) cs) of
           Some m \<Rightarrow> Some (c # m)
         | None \<Rightarrow> xcresult_re_search cs)
      else xcresult_re_search cs)"


section \<open>The Readiness Checker (Scripts/release\_readiness.py)\<close>

subsection \<open>Process state, failures and command results\<close>

text \<open>
  The script's observable state is the global \<open>release_ready\<close>, the text printed so far
  and the working directory. A command's result is the triple that \<open>exec_cmd\<close> returns;
  what each external tool answers is an input of the model. \<open>os.chdir\<close> is taken to
  succeed. A failed \<open>assert\<close> is an \<open>AssertionError\<close> tagged with the assertion
  that failed and the data of its message.
\<close>

type_synonym cmd_result = "int \<times> string \<times> string"

datatype pyfloat = Finite rat | PosInf | NegInf | NaN

datatype pyval =
    PNone
  | PBool bool
  | PInt int
  | PFloat pyfloat
  | PStr string
  | PList "pyval list"
  | PDict "(string \<times> pyval) list"

datatype assertion =
    Not_In_Repository int string
  | Jazzy_Failed int string
  | No_Doc_Percentage string
  | Unexpected_Swift_Format string
  | Pod_Install_Failed string
  | Xcodebuild_Failed string
  | Not_One_Product
  | Too_Few_Files
  | Unexpected_File_Path string
  | No_Xcresult
  | Git_Not_Found
  | Git_Sha_Failed
  | Git_Date_Failed

datatype error =
    AssertionError assertion
  | TypeError
  | KeyError
  | IndexError
  | JSONDecodeError

record process =
  printed :: string
  cwd :: string

record state = process +
  release_ready :: bool

definition and_then :: "error + 'a \<Rightarrow> ('a \<Rightarrow> error + 'b) \<Rightarrow> error + 'b" where
  \<comment> \<open>an exception ends the run; otherwise the next statement runs\<close>
  "and_then r f = (case r of Inl e \<Rightarrow> Inl e | Inr x \<Rightarrow> f x)"

definition print_end :: "string \<Rightarrow> string \<Rightarrow> 'a process_scheme \<Rightarrow> 'a process_scheme" where
  \<comment> \<open>\<open>print(x, end=e)\<close>\<close>
  "print_end e x s = s\<lparr>printed := printed s @ x @ e\<rparr>"

definition print :: "string \<Rightarrow> 'a process_scheme \<Rightarrow> 'a process_scheme" where
  "print x s = print_end [newline] x s"

definition resolve :: "string \<Rightarrow> string \<Rightarrow> string" where
  \<comment> \<open>a path as seen from a directory: an absolute path stands, a relative one extends it\<close>
  "resolve dir p = (if prefix ''/'' p then p else dir @ ''/'' @ p)"

definition chdir :: "string \<Rightarrow> 'a process_scheme \<Rightarrow> 'a process_scheme" where
  \<comment> \<open>\<open>os.chdir(p)\<close>\<close>
  "chdir p s = s\<lparr>cwd := resolve (cwd s) p\<rparr>"

definition cd_to_git_root :: "cmd_result \<Rightarrow> 'a process_scheme \<Rightarrow> error + 'a process_scheme" where
  \<comment> \<open>the argument is the result of \<open>git rev-parse --show-toplevel\<close>\<close>
  "cd_to_git_root r s =
     (case r of (exit_code, stdout, stderr) \<Rightarrow>
        if exit_code = 0 then Inr (chdir (rstrip stdout) s)
        else Inl (AssertionError (Not_In_Repository exit_code stderr)))"

subsection \<open>Constants\<close>

definition minimum_code_coverage :: rat where
  \<comment> \<open>the float literal \<open>0.8\<close>: the double \<open>0x1.999999999999ap-1\<close>, as an exact fraction\<close>
  "minimum_code_coverage = 3602879701896397 / 4503599627370496"

definition untestable_files :: "string list" where
  "untestable_files =
     [''JacquardSDK/Classes/CentralManagerImplementation.swift'',
      ''JacquardSDK/Classes/Internal/Transport/PeripheralImplementation.swift'',
      ''JacquardSDK/Classes/Internal/Transport/Peripheral.swift'',
      ''JacquardSDK/Protobuf/jacquard.pb.swift'',
      ''JacquardSDK/Protobuf/publicSdk.pb.swift'']"

subsection \<open>The checks\<close>

definition check_pre_commit :: "cmd_result \<Rightarrow> cmd_result \<Rightarrow> state \<Rightarrow> error + state" where
  \<comment> \<open>arguments: the results of the root query and of \<open>./Scripts/pre_commit.sh\<close>\<close>
  "check_pre_commit toplevel script s =
     and_then (cd_to_git_root toplevel (print_end [] ''Pre_commit check: '' s)) (\<lambda>s1.
       case script of (exit_code, stdout, stderr) \<Rightarrow>
         if exit_code \<noteq> 0
         then Inr ((print stdout (print ''pre_commit.sh failed'' s1))\<lparr>release_ready := False\<rparr>)
         else Inr (print ''ok'' s1))"

fun swift_format_lines :: "string \<Rightarrow> string list \<Rightarrow> bool \<times> state \<Rightarrow> error + bool \<times> state" where
  \<comment> \<open>the loop over \<open>stderr.splitlines()\<close>, carrying \<open>swift_format_success\<close>\<close>
  "swift_format_lines stderr [] (success, s) = Inr (success, s)"
| "swift_format_lines stderr (line # ls) (success, s) =
     (if ignore_re_search line then swift_format_lines stderr ls (success, s)
      else case path_re_search line of
             None \<Rightarrow> Inl (AssertionError (Unexpected_Swift_Format stderr))
           | Some m \<Rightarrow> swift_format_lines stderr ls (False, print ('' * '' @ m) s))"

definition check_swift_format :: "cmd_result \<Rightarrow> cmd_result \<Rightarrow> state \<Rightarrow> error + state" where
  \<comment> \<open>arguments: the results of the root query and of
      \<open>swift-format lint --recursive JacquardSDK/Classes\<close>, whose exit code is not read\<close>
  "check_swift_format toplevel lint s =
     and_then (cd_to_git_root toplevel (print_end [] ''Checking swift-format lint: '' s)) (\<lambda>s1.
       case lint of (exit_code, stdout, stderr) \<Rightarrow>
         and_then (if stderr \<noteq> [] then swift_format_lines stderr (splitlines stderr) (True, s1)
                   else Inr (True, s1)) (\<lambda>(swift_format_success, s2).
           if swift_format_success then Inr (print ''ok'' s2)
           else Inr (print ''swift-format lint failed'' (s2\<lparr>release_ready := False\<rparr>))))"

definition pod_install :: "cmd_result \<Rightarrow> cmd_result \<Rightarrow> state \<Rightarrow> error + state" where
  \<comment> \<open>arguments: the results of the root query and of \<open>pod install\<close>\<close>
  "pod_install toplevel pod s =
     and_then (cd_to_git_root toplevel (print_end [] ''Pod update: '' s)) (\<lambda>s1.
       let s2 = chdir ''Example'' s1 in
       case pod of (exit_code, stdout, stderr) \<Rightarrow>
         if exit_code = 0 then Inr (print ''ok'' s2)
         else Inl (AssertionError (Pod_Install_Failed stderr)))"

fun documentation_lines :: "string \<Rightarrow> string list \<Rightarrow> state \<Rightarrow> error + state" where
  \<comment> \<open>the loop over \<open>stdout.splitlines()\<close>: the first matching line decides\<close>
  "documentation_lines stdout [] s = Inl (AssertionError (No_Doc_Percentage stdout))"
| "documentation_lines stdout (line # ls) s =
     (case percentage_re_search line of
        Some percentage \<Rightarrow>
          if percentage \<noteq> ''100''
          then Inr ((print (''ERROR: Documentation incomplete: '' @ repr line) s)
                      \<lparr>release_ready := False\<rparr>)
          else Inr (print ''ok'' s)
      | None \<Rightarrow> documentation_lines stdout ls s)"

definition check_documentation_percentage ::
  "cmd_result \<Rightarrow> cmd_result \<Rightarrow> state \<Rightarrow> error + state" where
  \<comment> \<open>arguments: the results of the root query and of \<open>jazzy --config jazzy.yaml\<close>\<close>
  "check_documentation_percentage toplevel jazzy s =
     and_then (cd_to_git_root toplevel (print_end [] ''Documentation coverage: '' s)) (\<lambda>s1.
       case jazzy of (exit_code, stdout, stderr) \<Rightarrow>
         if exit_code = 0 then documentation_lines stdout (splitlines stdout) s1
         else Inl (AssertionError (Jazzy_Failed exit_code stderr)))"

subsection \<open>The coverage report\<close>

text \<open>
  The report is the value that \<open>json.loads\<close> returns for the output of \<open>xccov\<close>. Indexing,
  \<open>len\<close>, iteration and \<open><\<close> raise \<open>TypeError\<close>, \<open>KeyError\<close> or \<open>IndexError\<close> on values
  they do not apply to, as Python does. A \<open>dict\<close> is the list of its items, whose keys
  are distinct. A number is modelled by its exact value, a float being a fraction, an
  infinity or not a number.
\<close>

fun py_len :: "pyval \<Rightarrow> error + nat" where
  "py_len (PStr s) = Inr (length s)"
| "py_len (PList xs) = Inr (length xs)"
| "py_len (PDict d) = Inr (length d)"
| "py_len v = Inl TypeError"

fun py_first :: "pyval \<Rightarrow> error + pyval" where
  \<comment> \<open>\<open>v[0]\<close>; the keys of a parsed JSON object are strings, so \<open>0\<close> is none of them\<close>
  "py_first (PList xs) = (case xs of [] \<Rightarrow> Inl IndexError | x # _ \<Rightarrow> Inr x)"
| "py_first (PStr s) = (case s of [] \<Rightarrow> Inl IndexError | c # _ \<Rightarrow> Inr (PStr [c]))"
| "py_first (PDict d) = Inl KeyError"
| "py_first v = Inl TypeError"

fun py_getitem :: "pyval \<Rightarrow> string \<Rightarrow> error + pyval" where
  \<comment> \<open>\<open>v[key]\<close> for a string key\<close>
  "py_getitem (PDict d) k = (case map_of d k of None \<Rightarrow> Inl KeyError | Some v \<Rightarrow> Inr v)"
| "py_getitem v k = Inl TypeError"

fun py_iter :: "pyval \<Rightarrow> error + pyval list" where
  \<comment> \<open>the values a \<open>for\<close> loop over \<open>v\<close> visits\<close>
  "py_iter (PList xs) = Inr xs"
| "py_iter (PStr s) = Inr (map (\<lambda>c. PStr [c]) s)"
| "py_iter (PDict d) = Inr (map (\<lambda>(k, v). PStr k) d)"
| "py_iter v = Inl TypeError"

fun below_minimum :: "pyval \<Rightarrow> error + bool" where
  \<comment> \<open>\<open>v < minimum_code_coverage\<close>\<close>
  "below_minimum (PBool b) = Inr ((if b then 1 else 0) < minimum_code_coverage)"
| "below_minimum (PInt i) = Inr (of_int i < minimum_code_coverage)"
| "below_minimum (PFloat (Finite r)) = Inr (r < minimum_code_coverage)"
| "below_minimum (PFloat PosInf) = Inr False"
| "below_minimum (PFloat NegInf) = Inr True"
| "below_minimum (PFloat NaN) = Inr False"
| "below_minimum v = Inl TypeError"

fun coverage_files :: "pyval list \<Rightarrow> (string \<times> pyval) list \<Rightarrow> error + (string \<times> pyval) list" where
  \<comment> \<open>the loop over \<open>files\<close>, carrying \<open>bad_files\<close>\<close>
  "coverage_files [] bad_files = Inr bad_files"
| "coverage_files (file # files) bad_files =
     and_then (py_getitem file ''path'') (\<lambda>p.
       case p of
         PStr file_path \<Rightarrow>
           (case path_re_search file_path of
              None \<Rightarrow> Inl (AssertionError (Unexpected_File_Path file_path))
            | Some path \<Rightarrow>
                if path \<in> set untestable_files then coverage_files files bad_files
                else and_then (py_getitem file ''lineCoverage'') (\<lambda>coverage.
                       and_then (below_minimum coverage) (\<lambda>below.
                         if below then coverage_files files (bad_files @ [(path, coverage)])
                         else coverage_files files bad_files)))
       | _ \<Rightarrow> Inl TypeError)"

fun print_bad_files :: "(pyval \<Rightarrow> string) \<Rightarrow> (string \<times> pyval) list \<Rightarrow> state \<Rightarrow> state" where
  \<comment> \<open>the loop over \<open>bad_files\<close>; the first argument is \<open>str\<close> on a coverage value\<close>
  "print_bad_files str [] s = s"
| "print_bad_files str (file # files) s =
     print_bad_files str files
       ((print ('' * '' @ fst file @ '' : '' @ str (snd file)) s)\<lparr>release_ready := False\<rparr>)"

definition check_code_coverage ::
  "(pyval \<Rightarrow> string) \<Rightarrow> cmd_result \<Rightarrow> cmd_result \<Rightarrow> pyval option \<Rightarrow> state \<Rightarrow> error + state" where
  \<comment> \<open>arguments: \<open>str\<close> on a coverage value, the results of the root query and of the
      \<open>xcodebuild ... |grep .xcresult\<close> pipeline, and what \<open>json.loads\<close> makes of the output
      of \<open>xcrun xccov view --report\<close> (\<open>None\<close> when it raises)\<close>
  "check_code_coverage str toplevel xcodebuild report s =
     and_then (cd_to_git_root toplevel (print_end [] ''Code coverage: '' s)) (\<lambda>s1.
       let s2 = chdir ''Example'' s1 in
       case xcodebuild of (exit_code, stdout, stderr) \<Rightarrow>
         if exit_code \<noteq> 0 then Inl (AssertionError (Xcodebuild_Failed stderr))
         else case xcresult_re_search stdout of
           None \<Rightarrow> Inl (AssertionError No_Xcresult)
         | Some xcresult \<Rightarrow>
             and_then (case report of None \<Rightarrow> Inl JSONDecodeError | Some r \<Rightarrow> Inr r) (\<lambda>report.
             and_then (py_len report) (\<lambda>n.
               if n \<noteq> 1 then Inl (AssertionError Not_One_Product)
               else
                 and_then (py_first report) (\<lambda>product.
                 and_then (py_getitem product ''files'') (\<lambda>files.
                 and_then (py_len files) (\<lambda>n_files.
                   if \<not> n_files > 5 then Inl (AssertionError Too_Few_Files)
                   else
                     and_then (py_iter files) (\<lambda>file_list.
                     and_then (coverage_files file_list []) (\<lambda>bad_files.
                       if length bad_files > 0
                       then Inr (print_bad_files str bad_files
                              (print (''Minimum code coverage of 0.8 ''
                                      @ ''not met by the following files:'')
                                 s2))
                       else Inr s2))))))))"

definition check_todo_count ::
  "string \<Rightarrow> cmd_result \<Rightarrow> cmd_result \<Rightarrow> cmd_result \<Rightarrow> state \<Rightarrow> error + state" where
  \<comment> \<open>arguments: the pattern and the results of the root query and of the two
      \<open>find ... |wc -l\<close> pipelines (TODOs without and with a bug reference)\<close>
  "check_todo_count pattern toplevel without_bug with_bug s =
     and_then (cd_to_git_root toplevel
                 (print_end [] (''TODO count ('' @ repr pattern @ ''): '') s)) (\<lambda>s1.
       Inr (print (''; with bug: '' @ strip (fst (snd with_bug)))
             (print_end [] (''without bug: '' @ strip (fst (snd without_bug)))
               (print (''find . -name '' @ repr pattern
                       @ '' -type f -print0|xargs -0 grep -i TODO|egrep -v 'b/'|wc -l'')
                  s1))))"

subsection \<open>The script\<close>

record tools =
  pre_commit_root :: cmd_result
  pre_commit_sh :: cmd_result
  swift_format_root :: cmd_result
  swift_format_lint :: cmd_result
  pod_root :: cmd_result
  pod :: cmd_result
  jazzy_root :: cmd_result
  jazzy :: cmd_result
  coverage_root :: cmd_result
  xcodebuild :: cmd_result
  xccov_report :: "pyval option"
  todo_swift_root :: cmd_result
  todo_swift_without :: cmd_result
  todo_swift_with :: cmd_result
  todo_md_root :: cmd_result
  todo_md_without :: cmd_result
  todo_md_with :: cmd_result

definition initial :: "string \<Rightarrow> state" where
  \<comment> \<open>\<open>release_ready = True\<close>, nothing printed, started in the given directory\<close>
  "initial dir = \<lparr>printed = [], cwd = dir, release_ready = True\<rparr>"

definition run_checks :: "(pyval \<Rightarrow> string) \<Rightarrow> tools \<Rightarrow> state \<Rightarrow> error + state" where
  \<comment> \<open>the seven calls at the end of the script, in their order\<close>
  "run_checks str t s =
     and_then (check_pre_commit (pre_commit_root t) (pre_commit_sh t) s) (\<lambda>s1.
     and_then (check_swift_format (swift_format_root t) (swift_format_lint t) s1) (\<lambda>s2.
     and_then (pod_install (pod_root t) (pod t) s2) (\<lambda>s3.
     and_then (check_documentation_percentage (jazzy_root t) (jazzy t) s3) (\<lambda>s4.
     and_then (check_code_coverage str (coverage_root t) (xcodebuild t) (xccov_report t) s4) (\<lambda>s5.
     and_then (check_todo_count ''*.swift'' (todo_swift_root t) (todo_swift_without t)
                 (todo_swift_with t) s5) (\<lambda>s6.
       check_todo_count ''*.md'' (todo_md_root t) (todo_md_without t) (todo_md_with t) s6))))))"

definition release_readiness :: "(pyval \<Rightarrow> string) \<Rightarrow> tools \<Rightarrow> string \<Rightarrow> error + int \<times> state" where
  \<comment> \<open>the whole script: an uncaught exception, or the exit code and the final state\<close>
  "release_readiness str t dir =
     and_then (run_checks str t (initial dir)) (\<lambda>s.
       if release_ready s
       then Inr (0, print ''Congratulations, the repository is release ready!'' s)
       else Inr (1, print ''The repository is not release ready. See errors above.'' s))"

section \<open>The Build Stamper (Scripts/update\_build\_hash.py)\<close>

text \<open>
  The stamper's state is the working directory and the files it can write, by path.
  \<open>open(path, "w")\<close> followed by \<open>write\<close> replaces the content of the file at the path
  as seen from the working directory; \<open>open\<close> is taken to succeed, and the file object
  it returns is true, so \<open>assert file\<close> passes.
\<close>

record stamper = process +
  disk :: "string \<rightharpoonup> string"

definition which_git :: "cmd_result \<Rightarrow> error + string" where
  \<comment> \<open>the argument is the result of \<open>xcrun which git\<close>\<close>
  "which_git r =
     (case r of (result, out, err) \<Rightarrow>
        if result = 0 then Inr (rstrip out) else Inl (AssertionError Git_Not_Found))"

definition git_sha :: "cmd_result \<Rightarrow> error + string" where
  \<comment> \<open>the argument is the result of \<open>{git} rev-parse --short HEAD\<close>\<close>
  "git_sha r =
     (case r of (result, out, err) \<Rightarrow>
        if result = 0 then Inr (rstrip out) else Inl (AssertionError Git_Sha_Failed))"

definition git_date :: "cmd_result \<Rightarrow> error + string" where
  \<comment> \<open>the argument is the result of \<open>{git} show -s --format=%ci HEAD\<close>\<close>
  "git_date r =
     (case r of (result, out, err) \<Rightarrow>
        if result = 0 then Inr (rstrip out) else Inl (AssertionError Git_Date_Failed))"

definition build_hash_json :: "string \<Rightarrow> string \<Rightarrow> string" where
  \<comment> \<open>the f-string written to the file\<close>
  \<open>build_hash_json sha date =
     ''{'' @ [newline]
     @ ''  "buildHash": "'' @ sha @ ''",'' @ [newline]
     @ ''  "buildDate": "'' @ date @ ''"'' @ [newline]
     @ ''}'' @ [newline]\<close>

definition build_hash_path :: string where
  "build_hash_path = ''Example/JacquardSDK/BuildHash.json''"

definition write_file :: "string \<Rightarrow> string \<Rightarrow> stamper \<Rightarrow> stamper" where
  "write_file path content s = s\<lparr>disk := (disk s)(resolve (cwd s) path \<mapsto> content)\<rparr>"

definition update_build_hash ::
  "cmd_result \<Rightarrow> cmd_result \<Rightarrow> cmd_result \<Rightarrow> cmd_result \<Rightarrow> stamper \<Rightarrow> error option \<times> stamper" where
  \<comment> \<open>the whole script, given the results of \<open>xcrun which git\<close>, of the two queries on
      \<open>HEAD\<close> and of the root query: the uncaught exception, if any, and the final state\<close>
  "update_build_hash which rev_parse show_date toplevel s =
     (case and_then (which_git which) (\<lambda>git.
           and_then (git_sha rev_parse) (\<lambda>sha.
           and_then (git_date show_date) (\<lambda>date.
           and_then (cd_to_git_root toplevel s) (\<lambda>s1.
             Inr (write_file build_hash_path (build_hash_json sha date) s1))))) of
        Inl e \<Rightarrow> (Some e, s)
      | Inr s' \<Rightarrow> (None, s'))"

section \<open>Reading JSON text\<close>

text \<open>
  What it means for a text to parse as JSON, after RFC 8259: a lexer and a pushdown
  automaton over its tokens. A number keeps its spelling. An object keeps its members
  in the order of the text. An escape \<open>\uXXXX\<close> above 255 names a character that a
  \<open>string\<close> here cannot hold; the reader then answers \<open>Beyond_Model\<close> and decides
  nothing about the text.
\<close>

datatype json =
    JNull
  | JBool bool
  | JNumber string
  | JString string
  | JArray "json list"
  | JObject "(string \<times> json) list"

datatype json_error = Not_JSON | Beyond_Model

datatype token =
    LBrace | RBrace | LBracket | RBracket | Colon | Comma
  | TString string | TNumber string | TTrue | TFalse | TNull

definition is_json_ws :: "char \<Rightarrow> bool" where
  "is_json_ws c = (c \<in> set [CHR 0x20, CHR 0x09, CHR 0x0A, CHR 0x0D])"

definition hex_value :: "char \<Rightarrow> nat option" where
  "hex_value c =
     map_of (zip ''0123456789abcdef'' [0 ..< 16] @ zip ''ABCDEF'' [10 ..< 16]) c"

definition unicode_escape :: "string \<Rightarrow> json_error + char" where
  \<comment> \<open>the character named by four hexadecimal digits\<close>
  "unicode_escape ds =
     (case map hex_value ds of
        [Some a, Some b, Some c, Some d] \<Rightarrow>
          if a = 0 \<and> b = 0 then Inr (char_of (16 * c + d)) else Inl Beyond_Model
      | _ \<Rightarrow> Inl Not_JSON)"

definition simple_escape :: "char \<Rightarrow> char option" where
  \<comment> \<open>the character named by a two-character escape\<close>
  "simple_escape c =
     map_of [(dquote, dquote), (backslash, backslash), (CHR ''/'', CHR ''/''),
             (CHR ''b'', CHR 0x08), (CHR ''f'', CHR 0x0C), (CHR ''n'', CHR 0x0A),
             (CHR ''r'', CHR 0x0D), (CHR ''t'', CHR 0x09)] c"

fun scan_string :: "string \<Rightarrow> json_error + string \<times> string" where
  \<comment> \<open>the text after an opening quote: the string's value and the text after its closing quote\<close>
  "scan_string [] = Inl Not_JSON"
| "scan_string (c # cs) =
     (if c = dquote then Inr ([], cs)
      else if c = backslash then
        (case cs of
           [] \<Rightarrow> Inl Not_JSON
         | e # es \<Rightarrow>
             if e = CHR ''u'' then
               (case unicode_escape (take 4 es) of
                  Inl err \<Rightarrow> Inl err
                | Inr u \<Rightarrow> map_sum id (\<lambda>(v, rest). (u # v, rest)) (scan_string (drop 4 es)))
             else
               (case simple_escape e of
                  None \<Rightarrow> Inl Not_JSON
                | Some u \<Rightarrow> map_sum id (\<lambda>(v, rest). (u # v, rest)) (scan_string es)))
      else if (of_char c :: nat) < 32 then Inl Not_JSON
      else map_sum id (\<lambda>(v, rest). (c # v, rest)) (scan_string cs))"

definition scan_digits :: "string \<Rightarrow> (string \<times> string) option" where
  \<comment> \<open>one digit or more\<close>
  "scan_digits s =
     (if takeWhile is_digit s = [] then None
      else Some (takeWhile is_digit s, dropWhile is_digit s))"

definition scan_int :: "string \<Rightarrow> (string \<times> string) option" where
  \<comment> \<open>\<open>0\<close>, or digits that do not start with \<open>0\<close>\<close>
  "scan_int s =
     (case s of
        [] \<Rightarrow> None
      | c # cs \<Rightarrow> if c = CHR ''0'' then Some ([c], cs) else scan_digits s)"

definition scan_frac :: "string \<Rightarrow> (string \<times> string) option" where
  \<comment> \<open>nothing, or a point and digits\<close>
  "scan_frac s =
     (case s of
        c # cs \<Rightarrow>
          if c = CHR ''.'' then map_option (\<lambda>(ds, rest). (c # ds, rest)) (scan_digits cs)
          else Some ([], s)
      | [] \<Rightarrow> Some ([], s))"

definition scan_sign :: "string \<Rightarrow> string \<Rightarrow> string \<times> string" where
  \<comment> \<open>one of the given sign characters, if one stands first\<close>
  "scan_sign signs s =
     (case s of c # cs \<Rightarrow> if c \<in> set signs then ([c], cs) else ([], s) | [] \<Rightarrow> ([], s))"

definition scan_exp :: "string \<Rightarrow> (string \<times> string) option" where
  \<comment> \<open>nothing, or \<open>e\<close> or \<open>E\<close>, a sign if any, and digits\<close>
  "scan_exp s =
     (case s of
        c # cs \<Rightarrow>
          if c \<in> set ''eE'' then
            (case scan_sign ''+-'' cs of (sign, cs') \<Rightarrow>
               map_option (\<lambda>(ds, rest). (c # sign @ ds, rest)) (scan_digits cs'))
          else Some ([], s)
      | [] \<Rightarrow> Some ([], s))"

definition scan_number :: "string \<Rightarrow> (string \<times> string) option" where
  \<comment> \<open>the spelling of the number that starts the text, and the text after it\<close>
  "scan_number s =
     (case scan_sign ''-'' s of (sign, s1) \<Rightarrow>
        case scan_int s1 of
          None \<Rightarrow> None
        | Some (int_part, s2) \<Rightarrow>
            (case scan_frac s2 of
               None \<Rightarrow> None
             | Some (fraction, s3) \<Rightarrow>
                 map_option (\<lambda>(ex, rest). (sign @ int_part @ fraction @ ex, rest)) (scan_exp s3)))"

definition scan_literal :: "string \<Rightarrow> (token \<times> string) option" where
  "scan_literal s =
     (if prefix ''true'' s then Some (TTrue, drop 4 s)
      else if prefix ''false'' s then Some (TFalse, drop 5 s)
      else if prefix ''null'' s then Some (TNull, drop 4 s)
      else None)"

definition next_token :: "string \<Rightarrow> json_error + token \<times> string" where
  \<comment> \<open>the token that starts the text, which does not start with white space\<close>
  "next_token s =
     (case s of
        [] \<Rightarrow> Inl Not_JSON
      | c # cs \<Rightarrow>
          if c = CHR ''{'' then Inr (LBrace, cs)
          else if c = CHR ''}'' then Inr (RBrace, cs)
          else if c = CHR ''['' then Inr (LBracket, cs)
          else if c = CHR '']'' then Inr (RBracket, cs)
          else if c = CHR '':'' then Inr (Colon, cs)
          else if c = CHR '','' then Inr (Comma, cs)
          else if c = dquote then map_sum id (\<lambda>(v, rest). (TString v, rest)) (scan_string cs)
          else if c = CHR ''-'' \<or> is_digit c then
            (case scan_number s of
               None \<Rightarrow> Inl Not_JSON
             | Some (n, rest) \<Rightarrow> Inr (TNumber n, rest))
          else (case scan_literal s of None \<Rightarrow> Inl Not_JSON | Some r \<Rightarrow> Inr r))"

subsection \<open>The lexer\<close>

text \<open>Every token takes at least one character, so the lexer terminates.\<close>

function lex :: "string \<Rightarrow> json_error + token list" where
  "lex [] = Inr []"
| "lex (c # cs) =
     (if is_json_ws c then lex cs
      else case next_token (c # cs) of
             Inl e \<Rightarrow> Inl e
           | Inr (t, rest) \<Rightarrow> map_sum id ((#) t) (lex rest))"
  by pat_completeness auto
termination
proof (relation "measure length")
  show "wf (measure length)" by simp
next
  fix c cs assume "is_json_ws c"
  show "(cs, c # cs) \<in> measure length" by simp
next
  fix c cs x2 t rest
  assume "\<not> is_json_ws c" and "next_token (c # cs) = Inr x2" and "(t, rest) = x2"
  then have token: "next_token (c # cs) = Inr (t, rest)" by simp
  have string: "length r < length s" if "scan_string s = Inr (v, r)" for s v r
    using that
  proof (induction s arbitrary: v r rule: scan_string.induct)
    case 1
    then show ?case by simp
  next
    case (2 c cs)
    then show ?case
      by (fastforce split: if_splits list.splits sum.splits option.splits simp: map_sum_def)
  qed
  have digits: "length r < length s" if "scan_digits s = Some (v, r)" for s v r
  proof -
    have "length (takeWhile is_digit s @ dropWhile is_digit s) = length s" by simp
    then have "length (takeWhile is_digit s) + length (dropWhile is_digit s) = length s"
      by (simp only: length_append)
    moreover from that have "0 < length (takeWhile is_digit s)" and r: "r = dropWhile is_digit s"
      by (auto simp: scan_digits_def split: if_splits)
    ultimately show ?thesis unfolding r by linarith
  qed
  have sign: "length r \<le> length s" if "scan_sign signs s = (v, r)" for signs s v r
    using that by (auto simp: scan_sign_def split: list.splits if_splits)
  have int_part: "length r < length s" if "scan_int s = Some (v, r)" for s v r
    using that by (auto simp: scan_int_def split: list.splits if_splits dest: digits)
  have fraction: "length r \<le> length s" if "scan_frac s = Some (v, r)" for s v r
    using that by (fastforce simp: scan_frac_def split: list.splits if_splits dest: digits)
  have exponent: "length r \<le> length s" if "scan_exp s = Some (v, r)" for s v r
    using that
    by (fastforce simp: scan_exp_def split: list.splits if_splits prod.splits dest: digits sign)
  have number: "length r < length s" if a: "scan_number s = Some (v, r)" for s v r
  proof -
    obtain sg s1 where 1: "scan_sign ''-'' s = (sg, s1)" by force
    with a obtain i s2 where 2: "scan_int s1 = Some (i, s2)"
      by (auto simp: scan_number_def split: option.splits)
    with a 1 obtain f s3 where 3: "scan_frac s2 = Some (f, s3)"
      by (auto simp: scan_number_def split: option.splits)
    with a 1 2 obtain ex where 4: "scan_exp s3 = Some (ex, r)"
      by (auto simp: scan_number_def split: option.splits)
    from sign [OF 1] int_part [OF 2] fraction [OF 3] exponent [OF 4]
    show ?thesis by linarith
  qed
  have literal: "length r < length s" if "scan_literal s = Some (t, r)" for s t r
    using that by (auto simp: scan_literal_def prefix_def split: if_splits)
  consider (punct) "rest = cs"
    | (str) v where "scan_string cs = Inr (v, rest)"
    | (num) n where "scan_number (c # cs) = Some (n, rest)"
    | (lit) "scan_literal (c # cs) = Some (t, rest)"
    using token
    by (simp add: next_token_def map_sum_def split: if_splits sum.splits option.splits prod.splits)
  then have "length rest < length (c # cs)"
  proof cases
    case punct
    then show ?thesis by simp
  next
    case str
    with string [OF str] show ?thesis by simp
  next
    case num
    then show ?thesis by (rule number)
  next
    case lit
    then show ?thesis by (rule literal)
  qed
  then show "(rest, c # cs) \<in> measure length" by simp
qed

text \<open>
  The automaton reads one token at a time. Its stack holds the arrays and objects that
  are still open, each with what it has collected; its mode says what may come next.
\<close>

datatype frame =
    Parent_Array "json list"
  | Parent_Object "(string \<times> json) list" string

datatype mode =
    Value
  | After_Open_Array
  | Elem_Done "json list"
  | After_Open_Object
  | Key "(string \<times> json) list"
  | Colon_Due "(string \<times> json) list" string
  | Member_Done "(string \<times> json) list"
  | Finished json

fun attach ::  "json \<Rightarrow> frame list \<Rightarrow> mode \<times> frame list" where
  "attach v [] = (Finished v, [])"
| "attach v (Parent_Array xs # st) = (Elem_Done (xs @ [v]), st)"
| "attach v (Parent_Object ms k # st) = (Member_Done (ms @ [(k, v)]), st)"

fun start_value :: "frame list \<Rightarrow> token \<Rightarrow> (mode \<times> frame list) option" where
  "start_value st LBracket = Some (After_Open_Array, st)"
| "start_value st LBrace = Some (After_Open_Object, st)"
| "start_value st (TString s) = Some (attach (JString s) st)"
| "start_value st (TNumber n) = Some (attach (JNumber n) st)"
| "start_value st TTrue = Some (attach (JBool True) st)"
| "start_value st TFalse = Some (attach (JBool False) st)"
| "start_value st TNull = Some (attach JNull st)"
| "start_value st t = None"

fun step :: "mode \<Rightarrow> frame list \<Rightarrow> token \<Rightarrow> (mode \<times> frame list) option" where
  "step Value st t = start_value st t"
| "step After_Open_Array st t =
     (if t = RBracket then Some (attach (JArray []) st)
      else start_value (Parent_Array [] # st) t)"
| "step (Elem_Done xs) st t =
     (if t = Comma then Some (Value, Parent_Array xs # st)
      else if t = RBracket then Some (attach (JArray xs) st)
      else None)"
| "step After_Open_Object st t =
     (case t of
        RBrace \<Rightarrow> Some (attach (JObject []) st)
      | TString k \<Rightarrow> Some (Colon_Due [] k, st)
      | _ \<Rightarrow> None)"
| "step (Key ms) st t = (case t of TString k \<Rightarrow> Some (Colon_Due ms k, st) | _ \<Rightarrow> None)"
| "step (Colon_Due ms k) st t =
     (if t = Colon then Some (Value, Parent_Object ms k # st) else None)"
| "step (Member_Done ms) st t =
     (if t = Comma then Some (Key ms, st)
      else if t = RBrace then Some (attach (JObject ms) st)
      else None)"
| "step (Finished v) st t = None"

fun pda :: "mode \<Rightarrow> frame list \<Rightarrow> token list \<Rightarrow> json option" where
  "pda m st [] = (case m of Finished v \<Rightarrow> Some v | _ \<Rightarrow> None)"
| "pda m st (t # ts) =
     (case step m st t of None \<Rightarrow> None | Some (m', st') \<Rightarrow> pda m' st' ts)"

definition json_loads :: "string \<Rightarrow> json_error + json" where
  "json_loads s =
     (case lex s of
        Inl e \<Rightarrow> Inl e
      | Inr ts \<Rightarrow> (case pda Value [] ts of None \<Rightarrow> Inl Not_JSON | Some v \<Rightarrow> Inr v))"

section \<open>The vocabulary of the properties\<close>

text \<open>
  The words in which the properties below are stated: what the lint check prints, when an
  entry of the coverage report is exempt or failing, when each gate check has passed, the
  steps of the script as a sequence, sample answers of the tools, and the texts that need
  no escaping inside a JSON string.
\<close>

definition bullets :: "string list \<Rightarrow> string" where
  \<comment> \<open>what the lint check prints for the lines that are not ignored\<close>
  "bullets ls =
     concat (map (\<lambda>l. case path_re_search l of
                          Some m \<Rightarrow> '' * '' @ m @ [newline]
                        | None \<Rightarrow> [])
                 (filter (\<lambda>l. \<not> ignore_re_search l) ls))"

definition entry_path :: "pyval \<Rightarrow> string option" where
  \<comment> \<open>the \<open>JacquardSDK/...\<close> path of an entry of the coverage report\<close>
  "entry_path file =
     (case py_getitem file ''path'' of Inr (PStr p) \<Rightarrow> path_re_search p | _ \<Rightarrow> None)"

definition entry_coverage :: "pyval \<Rightarrow> pyval option" where
  "entry_coverage file =
     (case py_getitem file ''lineCoverage'' of Inr c \<Rightarrow> Some c | Inl e \<Rightarrow> None)"

definition exempt :: "pyval \<Rightarrow> bool" where
  \<comment> \<open>the entry's path is in the allow-list\<close>
  "exempt file = (case entry_path file of Some path \<Rightarrow> path \<in> set untestable_files | None \<Rightarrow> False)"

definition failing :: "pyval \<Rightarrow> (string \<times> pyval) option" where
  \<comment> \<open>an entry that is not exempt and whose coverage is below the minimum\<close>
  "failing file =
     (case (entry_path file, entry_coverage file) of
        (Some path, Some coverage) \<Rightarrow>
          if path \<notin> set untestable_files \<and> below_minimum coverage = Inr True
          then Some (path, coverage) else None
      | _ \<Rightarrow> None)"

definition failing_files :: "pyval list \<Rightarrow> (string \<times> pyval) list" where
  "failing_files files = List.map_filter failing files"

definition coverage_entries :: "pyval option \<Rightarrow> pyval list" where
  \<comment> \<open>the entries of the single product of a report\<close>
  "coverage_entries report =
     (case report of
        Some r \<Rightarrow>
          (case and_then (py_first r) (\<lambda>product.
                and_then (py_getitem product ''files'') py_iter) of
             Inr files \<Rightarrow> files
           | Inl e \<Rightarrow> [])
      | None \<Rightarrow> [])"

definition cov_entry :: "string \<Rightarrow> rat \<Rightarrow> pyval" where
  \<comment> \<open>an entry of a report: a path and a line coverage\<close>
  "cov_entry p r = PDict [(''path'', PStr p), (''lineCoverage'', PFloat (Finite r))]"

definition sample_report :: pyval where
  \<comment> \<open>a report of six files, one of them exempt with a coverage of 0.1\<close>
  "sample_report =
     PList [PDict [(''files'', PList
       [cov_entry ''/r/JacquardSDK/Classes/A.swift'' 1,
        cov_entry ''/r/JacquardSDK/Classes/B.swift'' minimum_code_coverage,
        cov_entry ''/r/JacquardSDK/Protobuf/jacquard.pb.swift'' (1 / 10),
        cov_entry ''/r/JacquardSDK/Classes/C.swift'' (9 / 10),
        cov_entry ''/r/JacquardSDK/Classes/D.swift'' 1,
        cov_entry ''/r/JacquardSDK/Classes/E.swift'' 1])]]"

definition sample_tools :: tools where
  \<comment> \<open>answers of the tools with which every check passes\<close>
  "sample_tools =
     \<lparr>pre_commit_root = (0, ''/r'' @ [newline], []),
      pre_commit_sh = (0, [], []),
      swift_format_root = (0, ''/r'' @ [newline], []),
      swift_format_lint = (0, [], ''/r/JacquardSDK/Classes/A.swift:1:1: warning: [NoBlockComments] x''),
      pod_root = (0, ''/r'' @ [newline], []),
      pod = (0, [], []),
      jazzy_root = (0, ''/r'' @ [newline], []),
      jazzy = (0, ''100% documentation coverage with 0 undocumented symbols'', []),
      coverage_root = (0, ''/r'' @ [newline], []),
      xcodebuild = (0, ''    /tmp/Test.xcresult'' @ [newline], []),
      xccov_report = Some sample_report,
      todo_swift_root = (0, ''/r'' @ [newline], []),
      todo_swift_without = (0, ''  3'' @ [newline], []),
      todo_swift_with = (0, ''  1'' @ [newline], []),
      todo_md_root = (0, ''/r'' @ [newline], []),
      todo_md_without = (0, ''  0'' @ [newline], []),
      todo_md_with = (0, ''  0'' @ [newline], [])\<rparr>"

definition float_0_79999 :: rat where
  \<comment> \<open>the float \<open>0.79999\<close>: the double \<open>0x1.99984a0e410b6p-1\<close>, as an exact fraction\<close>
  "float_0_79999 = 3602834665900123 / 4503599627370496"

definition pre_commit_passed :: "tools \<Rightarrow> bool" where
  "pre_commit_passed t = (fst (pre_commit_sh t) = 0)"

definition lint_passed :: "tools \<Rightarrow> bool" where
  \<comment> \<open>swift-format reported nothing but ignored lines\<close>
  "lint_passed t =
     (\<forall>l\<in>set (splitlines (snd (snd (swift_format_lint t)))). ignore_re_search l)"

definition documentation_complete :: "tools \<Rightarrow> bool" where
  \<comment> \<open>the first percentage line of jazzy says 100\<close>
  "documentation_complete t =
     (case find (\<lambda>l. percentage_re_search l \<noteq> None) (splitlines (fst (snd (jazzy t)))) of
        Some line \<Rightarrow> percentage_re_search line = Some ''100''
      | None \<Rightarrow> False)"

definition coverage_met :: "tools \<Rightarrow> bool" where
  \<comment> \<open>no entry of the report is failing\<close>
  "coverage_met t = (failing_files (coverage_entries (xccov_report t)) = [])"

definition steps :: "(pyval \<Rightarrow> string) \<Rightarrow> tools \<Rightarrow> (state \<Rightarrow> error + state) list" where
  \<comment> \<open>the seven calls of the script, as a sequence\<close>
  "steps str t =
     [check_pre_commit (pre_commit_root t) (pre_commit_sh t),
      check_swift_format (swift_format_root t) (swift_format_lint t),
      pod_install (pod_root t) (pod t),
      check_documentation_percentage (jazzy_root t) (jazzy t),
      check_code_coverage str (coverage_root t) (xcodebuild t) (xccov_report t),
      check_todo_count ''*.swift'' (todo_swift_root t) (todo_swift_without t) (todo_swift_with t),
      check_todo_count ''*.md'' (todo_md_root t) (todo_md_without t) (todo_md_with t)]"

fun run_steps :: "(state \<Rightarrow> error + state) list \<Rightarrow> state \<Rightarrow> error + state" where
  "run_steps [] s = Inr s"
| "run_steps (f # fs) s = and_then (f s) (run_steps fs)"

definition plain :: "string \<Rightarrow> bool" where
  \<comment> \<open>no double quote, no backslash, no control character\<close>
  "plain s = (\<forall>c\<in>set s. c \<noteq> dquote \<and> c \<noteq> backslash \<and> 32 \<le> (of_char c :: nat))"

section \<open>Properties of the Readiness Checker\<close>

subsection \<open>The lint check\<close>

lemma swift_format_lines_ok:
  "\<forall>l\<in>set ls. ignore_re_search l \<or> path_re_search l \<noteq> None \<Longrightarrow>
   swift_format_lines e ls (b, s) =
     Inr (b \<and> (\<forall>l\<in>set ls. ignore_re_search l), s\<lparr>printed := printed s @ bullets ls\<rparr>)"
proof (induction ls arbitrary: b s)
  case Nil
  then show ?case by (simp add: bullets_def)
next
  case (Cons l ls)
  show ?case
  proof (cases "ignore_re_search l")
    case True
    with Cons show ?thesis by (simp add: bullets_def)
  next
    case False
    with Cons.prems obtain m where m: "path_re_search l = Some m" by auto
    from Cons.prems have rest: "\<forall>l\<in>set ls. ignore_re_search l \<or> path_re_search l \<noteq> None"
      by simp
    show ?thesis
      using False m Cons.IH [OF rest, of False "print ('' * '' @ m) s"]
      by (simp add: bullets_def print_def print_end_def)
  qed
qed

lemma swift_format_lines_Inr:
  "swift_format_lines e ls (b, s) = Inr (b', s') \<Longrightarrow>
   b' = (b \<and> (\<forall>l\<in>set ls. ignore_re_search l)) \<and> release_ready s' = release_ready s"
proof (induction ls arbitrary: b s)
  case Nil
  then show ?case by simp
next
  case (Cons l ls)
  show ?case
  proof (cases "ignore_re_search l")
    case True
    with Cons show ?thesis by simp
  next
    case False
    with Cons.prems obtain m where m: "path_re_search l = Some m"
      by (auto split: option.splits)
    with False Cons.prems
    have "swift_format_lines e ls (False, print ('' * '' @ m) s) = Inr (b', s')" by simp
    from Cons.IH [OF this] False show ?thesis by (simp add: print_def print_end_def)
  qed
qed

text \<open>
  C8, as amended. Let the root query succeed and let every line of the standard error of
  swift-format either match the ignore pattern \<open>NoBlockComments\<close> or contain a
  \<open>JacquardSDK/\<close> path. Then the lint check returns; the Readiness Flag is afterwards
  false if and only if it was false before or some line does not match the ignore
  pattern; for each such line, in order, the check prints \<open>" * "\<close> followed by the part
  of the line that starts at its first \<open>JacquardSDK/\<close> (not the whole line); and it
  ends with \<open>ok\<close> when every line is ignored or there is none, with
  \<open>swift-format lint failed\<close> otherwise.
\<close>

theorem swift_format_flag_and_output:
  assumes "\<forall>l\<in>set (splitlines stderr). ignore_re_search l \<or> path_re_search l \<noteq> None"
  shows "\<exists>s'. check_swift_format (0, t, e) (ec, so, stderr) s = Inr s'
           \<and> release_ready s' = (release_ready s \<and> (\<forall>l\<in>set (splitlines stderr). ignore_re_search l))
           \<and> printed s' = printed s @ ''Checking swift-format lint: '' @ bullets (splitlines stderr)
                @ (if \<forall>l\<in>set (splitlines stderr). ignore_re_search l then ''ok''
                   else ''swift-format lint failed'') @ [newline]"
proof (cases "stderr = []")
  case True
  then show ?thesis
    by (simp add: check_swift_format_def and_then_def cd_to_git_root_def chdir_def
        print_def print_end_def splitlines_def bullets_def)
next
  case False
  then show ?thesis
    using swift_format_lines_ok [OF assms, of stderr True]
    by (simp add: check_swift_format_def and_then_def cd_to_git_root_def chdir_def
        print_def print_end_def)
qed

lemma check_swift_format_flag:
  assumes "check_swift_format toplevel lint s = Inr s'"
  shows "release_ready s' =
           (release_ready s \<and> (\<forall>l\<in>set (splitlines (snd (snd lint))). ignore_re_search l))"
proof -
  obtain ec so stderr where lint: "lint = (ec, so, stderr)" by (cases lint) auto
  from assms obtain s1 where s1: "cd_to_git_root toplevel
        (print_end [] ''Checking swift-format lint: '' s) = Inr s1"
    by (auto simp: check_swift_format_def and_then_def split: sum.splits)
  then have r1: "release_ready s1 = release_ready s"
    by (auto simp: cd_to_git_root_def chdir_def print_end_def split: prod.splits if_splits)
  show ?thesis
  proof (cases "stderr = []")
    case True
    with assms s1 lint r1 show ?thesis
      by (auto simp: check_swift_format_def and_then_def splitlines_def print_def print_end_def)
  next
    case False
    with assms s1 lint obtain b s2 where
      l: "swift_format_lines stderr (splitlines stderr) (True, s1) = Inr (b, s2)"
      and fin: "s' = (if b then print ''ok'' s2
                      else print ''swift-format lint failed'' (s2\<lparr>release_ready := False\<rparr>))"
      by (auto simp: check_swift_format_def and_then_def split: sum.splits if_splits)
    from swift_format_lines_Inr [OF l] fin r1 lint show ?thesis
      by (auto simp: print_def print_end_def)
  qed
qed

abbreviation lint_err :: string where
  "lint_err \<equiv> ''/r/JacquardSDK/A.swift:1:1: warning: [NoBlockComments] x'' @ [newline]
     @ ''/r/JacquardSDK/B.swift:2:1: warning: [Y] z''"

theorem swift_format_flag_and_output_witness:
  "\<exists>s'. check_swift_format (0, ''/r'', '''') (0, '''', lint_err) (initial ''/'') = Inr s'
     \<and> \<not> release_ready s'
     \<and> printed s' = ''Checking swift-format lint:  * JacquardSDK/B.swift:2:1: warning: [Y] z''
          @ [newline] @ ''swift-format lint failed'' @ [newline]"
  using swift_format_flag_and_output [where stderr = lint_err and t = "''/r''" and e = "''''"
      and ec = 0 and so = "''''" and s = "initial ''/''"]
  by (simp add: splitlines_def is_linebreak_def ignore_re_search_def path_re_search_def
      bullets_def initial_def)

theorem swift_format_whole_line_counterexample:
  "check_swift_format (0, ''/r'', '''') (0, '''', ''/r/JacquardSDK/A.swift:1:1: warning: [X] y'')
     (initial ''/'')
   = Inr \<lparr>printed = ''Checking swift-format lint:  * JacquardSDK/A.swift:1:1: warning: [X] y''
                @ [newline] @ ''swift-format lint failed'' @ [newline],
          cwd = ''/r'', release_ready = False\<rparr>
   \<and> \<not> sublist ''/r/JacquardSDK/A.swift:1:1: warning: [X] y''
        (''Checking swift-format lint:  * JacquardSDK/A.swift:1:1: warning: [X] y''
                @ [newline] @ ''swift-format lint failed'' @ [newline])"
  by (simp add: check_swift_format_def and_then_def cd_to_git_root_def chdir_def resolve_def
        print_def print_end_def splitlines_def is_linebreak_def rstrip_def is_space_def
        ignore_re_search_def path_re_search_def sublist_code initial_def)

subsection \<open>The documentation check\<close>

lemma documentation_lines_find:
  "documentation_lines so ls s =
     (case find (\<lambda>l. percentage_re_search l \<noteq> None) ls of
        None \<Rightarrow> Inl (AssertionError (No_Doc_Percentage so))
      | Some line \<Rightarrow>
          if percentage_re_search line = Some ''100'' then Inr (print ''ok'' s)
          else Inr ((print (''ERROR: Documentation incomplete: '' @ repr line) s)
                      \<lparr>release_ready := False\<rparr>))"
  by (induction ls) (auto split: option.splits)

text \<open>
  C3. Let the root query and jazzy both exit with 0. The first line of jazzy's output
  that matches \<open>^([0-9]+)% documentation coverage\<close> decides the documentation check. If
  its number is the text \<open>100\<close>, the check prints \<open>ok\<close> and leaves the Readiness Flag as
  it was. If it is anything else, the check prints \<open>ERROR: Documentation incomplete: \<close>
  followed by the line as \<open>%r\<close> shows it, and the Readiness Flag is false afterwards. If
  no line matches, the check fails an assertion.
\<close>

theorem documentation_percentage_outcomes:
  "(case find (\<lambda>l. percentage_re_search l \<noteq> None) (splitlines stdout) of
      None \<Rightarrow>
        check_documentation_percentage (0, t, e) (0, stdout, e') s
          = Inl (AssertionError (No_Doc_Percentage stdout))
    | Some line \<Rightarrow>
        (\<exists>s'. check_documentation_percentage (0, t, e) (0, stdout, e') s = Inr s'
           \<and> (if percentage_re_search line = Some ''100''
                then release_ready s' = release_ready s
                   \<and> printed s' = printed s @ ''Documentation coverage: ok'' @ [newline]
                else \<not> release_ready s'
                   \<and> printed s' = printed s @ ''Documentation coverage: ''
                        @ ''ERROR: Documentation incomplete: '' @ repr line @ [newline])))"
proof -
  have "check_documentation_percentage (0, t, e) (0, stdout, e') s =
        documentation_lines stdout (splitlines stdout)
          (chdir (rstrip t) (print_end [] ''Documentation coverage: '' s))"
    by (simp add: check_documentation_percentage_def and_then_def cd_to_git_root_def)
  then have run: "check_documentation_percentage (0, t, e) (0, stdout, e') s =
     (case find (\<lambda>l. percentage_re_search l \<noteq> None) (splitlines stdout) of
        None \<Rightarrow> Inl (AssertionError (No_Doc_Percentage stdout))
      | Some line \<Rightarrow>
          if percentage_re_search line = Some ''100''
          then Inr (print ''ok'' (chdir (rstrip t) (print_end [] ''Documentation coverage: '' s)))
          else Inr ((print (''ERROR: Documentation incomplete: '' @ repr line)
                       (chdir (rstrip t) (print_end [] ''Documentation coverage: '' s)))
                      \<lparr>release_ready := False\<rparr>))"
    by (simp only: documentation_lines_find)
  show ?thesis
  proof (cases "find (\<lambda>l. percentage_re_search l \<noteq> None) (splitlines stdout)")
    case None
    with run show ?thesis by simp
  next
    case (Some line)
    show ?thesis
    proof (cases "percentage_re_search line = Some ''100''")
      case True
      with run Some show ?thesis by (simp add: print_def print_end_def chdir_def)
    next
      case False
      with run Some show ?thesis by (simp add: print_def print_end_def chdir_def)
    qed
  qed
qed

theorem documentation_percentage_outcomes_witness:
  "(\<exists>s'. check_documentation_percentage (0, ''/r'', '''')
           (0, ''building'' @ [newline] @ ''100% documentation coverage with 0 undocumented symbols'', '''')
           (initial ''/'')
         = Inr s' \<and> release_ready s' \<and> printed s' = ''Documentation coverage: ok'' @ [newline])
   \<and> (\<exists>s'. check_documentation_percentage (0, ''/r'', '''') (0, ''99% documentation coverage'', '''')
           (initial ''/'')
         = Inr s' \<and> \<not> release_ready s'
         \<and> printed s' = ''Documentation coverage: ERROR: Documentation incomplete: ''
              @ [squote] @ ''99% documentation coverage'' @ [squote, newline])
   \<and> check_documentation_percentage (0, ''/r'', '''') (0, ''no percentage here'', '''') (initial ''/'')
     = Inl (AssertionError (No_Doc_Percentage ''no percentage here''))"
  using documentation_percentage_outcomes [where stdout = "''building'' @ [newline] @ ''100% documentation coverage with 0 undocumented symbols''" and t = "''/r''" and e = "''''" and e' = "''''" and s = "initial ''/''"]
    documentation_percentage_outcomes [where stdout = "''99% documentation coverage''" and t = "''/r''" and e = "''''" and e' = "''''" and s = "initial ''/''"]
    documentation_percentage_outcomes [where stdout = "''no percentage here''" and t = "''/r''" and e = "''''" and e' = "''''" and s = "initial ''/''"]
  by (simp add: splitlines_def is_linebreak_def percentage_re_search_def is_digit_def
       repr_def repr_char_def initial_def Let_def)

lemma check_documentation_percentage_flag:
  assumes "check_documentation_percentage toplevel jz s = Inr s'"
  shows "release_ready s' =
           (release_ready s \<and>
            (case find (\<lambda>l. percentage_re_search l \<noteq> None) (splitlines (fst (snd jz))) of
               Some line \<Rightarrow> percentage_re_search line = Some ''100''
             | None \<Rightarrow> False))"
  using assms
  by (auto simp: check_documentation_percentage_def and_then_def cd_to_git_root_def
        documentation_lines_find print_def print_end_def chdir_def
      split: sum.splits prod.splits if_splits option.splits)

subsection \<open>The checks that remain, and the flag\<close>

lemma check_pre_commit_flag:
  assumes "check_pre_commit toplevel script s = Inr s'"
  shows "release_ready s' = (release_ready s \<and> fst script = 0)"
  using assms
  by (auto simp: check_pre_commit_def and_then_def cd_to_git_root_def
        print_def print_end_def chdir_def
      split: sum.splits prod.splits if_splits)

lemma pod_install_flag:
  assumes "pod_install toplevel p s = Inr s'"
  shows "release_ready s' = release_ready s"
  using assms
  by (auto simp: pod_install_def and_then_def cd_to_git_root_def Let_def
        print_def print_end_def chdir_def
      split: sum.splits prod.splits if_splits)

lemma check_todo_count_flag:
  assumes "check_todo_count pattern toplevel a b s = Inr s'"
  shows "release_ready s' = release_ready s"
  using assms
  by (auto simp: check_todo_count_def and_then_def cd_to_git_root_def
        print_def print_end_def chdir_def
      split: sum.splits prod.splits if_splits)

subsection \<open>The coverage check\<close>

lemma coverage_files_exempt:
  assumes "exempt file"
  shows "coverage_files (file # files) bad = coverage_files files bad"
  using assms
  by (auto simp: exempt_def entry_path_def and_then_def
      split: option.splits sum.splits pyval.splits)

lemma coverage_files_compared:
  assumes "entry_path file = Some path" and "path \<notin> set untestable_files"
    and "entry_coverage file = Some coverage" and "below_minimum coverage = Inr below"
  shows "coverage_files (file # files) bad =
           coverage_files files (if below then bad @ [(path, coverage)] else bad)"
  using assms
  by (auto simp: entry_path_def entry_coverage_def and_then_def
      split: option.splits sum.splits pyval.splits)

lemma coverage_files_Inr:
  "coverage_files files bad = Inr r \<Longrightarrow> r = bad @ failing_files files"
proof (induction files arbitrary: bad)
  case Nil
  then show ?case by (simp add: failing_files_def map_filter_simps)
next
  case (Cons f files)
  from Cons.prems obtain p path where p: "py_getitem f ''path'' = Inr (PStr p)"
    and path: "path_re_search p = Some path"
    by (auto simp: and_then_def split: sum.splits pyval.splits option.splits)
  then have ep: "entry_path f = Some path" by (simp add: entry_path_def)
  show ?case
  proof (cases "path \<in> set untestable_files")
    case True
    with ep have "exempt f" by (simp add: exempt_def)
    from Cons.prems [unfolded coverage_files_exempt [OF this]]
    have "r = bad @ failing_files files" by (rule Cons.IH)
    moreover from ep True have "failing f = None"
      by (simp add: failing_def split: option.splits)
    ultimately show ?thesis by (simp add: failing_files_def map_filter_simps)
  next
    case False
    with Cons.prems p path obtain coverage below where
      c: "py_getitem f ''lineCoverage'' = Inr coverage"
      and b: "below_minimum coverage = Inr below"
      by (auto simp: and_then_def split: sum.splits)
    then have ec: "entry_coverage f = Some coverage" by (simp add: entry_coverage_def)
    from Cons.prems [unfolded coverage_files_compared [OF ep False ec b]]
    have "r = (if below then bad @ [(path, coverage)] else bad) @ failing_files files"
      by (rule Cons.IH)
    moreover from ep False ec b
    have "failing f = (if below then Some (path, coverage) else None)"
      by (simp add: failing_def)
    ultimately show ?thesis by (simp add: failing_files_def map_filter_simps)
  qed
qed

lemma coverage_files_append:
  "coverage_files (pre @ post) bad = and_then (coverage_files pre bad) (coverage_files post)"
proof (induction pre arbitrary: bad)
  case Nil
  then show ?case by (simp add: and_then_def)
next
  case (Cons f pre)
  show ?case
    by (simp add: Cons.IH and_then_def split: sum.splits pyval.splits option.splits)
qed

lemma print_bad_files_flag:
  "release_ready (print_bad_files str bad s) = (release_ready s \<and> bad = [])"
  by (induction bad arbitrary: s) (auto simp: print_def print_end_def)

lemma print_bad_files_printed:
  "printed (print_bad_files str bad s) =
     printed s @ concat (map (\<lambda>(p, c). '' * '' @ p @ '' : '' @ str c @ [newline]) bad)"
  by (induction bad arbitrary: s) (auto simp: print_def print_end_def)

lemma check_code_coverage_flag:
  assumes "check_code_coverage str toplevel xb report s = Inr s'"
  shows "release_ready s' = (release_ready s \<and> failing_files (coverage_entries report) = [])"
proof -
  from assms obtain s1 where s1: "cd_to_git_root toplevel (print_end [] ''Code coverage: '' s) = Inr s1"
    by (auto simp: check_code_coverage_def and_then_def split: sum.splits)
  then have r1: "release_ready (chdir ''Example'' s1) = release_ready s"
    by (auto simp: cd_to_git_root_def chdir_def print_end_def split: prod.splits if_splits)
  from assms s1 obtain r product files file_list bad where
    rep: "report = Some r" and "py_first r = Inr product"
    and "py_getitem product ''files'' = Inr files" and "py_iter files = Inr file_list"
    and bad: "coverage_files file_list [] = Inr bad"
    and fin: "s' = (if length bad > 0
                    then print_bad_files str bad
                           (print (''Minimum code coverage of 0.8 ''
                                   @ ''not met by the following files:'')
                              (chdir ''Example'' s1))
                    else chdir ''Example'' s1)"
    by (auto simp: check_code_coverage_def and_then_def Let_def
        split: sum.splits prod.splits if_splits option.splits)
  then have "coverage_entries report = file_list"
    by (simp add: coverage_entries_def and_then_def)
  with coverage_files_Inr [OF bad] have "bad = failing_files (coverage_entries report)" by simp
  with fin r1 show ?thesis
    by (auto simp: print_bad_files_flag print_def print_end_def)
qed

lemma check_code_coverage_reached:
  assumes "xcresult_re_search so = Some x"
    and "py_getitem product ''files'' = Inr files" and "py_len files = Inr n"
  shows "check_code_coverage str (0, t, e) (0, so, se) (Some (PList [product])) s =
           (if n \<le> 5 then Inl (AssertionError Too_Few_Files)
            else and_then (py_iter files) (\<lambda>file_list.
                 and_then (coverage_files file_list []) (\<lambda>bad_files.
                   if length bad_files > 0
                   then Inr (print_bad_files str bad_files
                          (print (''Minimum code coverage of 0.8 ''
                                  @ ''not met by the following files:'')
                             (chdir ''Example'' (chdir (rstrip t)
                                (print_end [] ''Code coverage: '' s)))))
                   else Inr (chdir ''Example'' (chdir (rstrip t)
                                (print_end [] ''Code coverage: '' s))))))"
  using assms
  by (simp add: check_code_coverage_def and_then_def cd_to_git_root_def Let_def)

text \<open>
  C10. Let the root query and the xcodebuild pipeline exit with 0, let the pipeline's
  output name a result bundle, and let the report be a list of one product whose
  \<open>files\<close> has a length. If that length is at most 5, the coverage check fails the
  assertion \<open>len(files) > 5\<close>, whatever the coverage of the files; the loop that compares
  each file with the threshold runs only when there are more than 5 files.
\<close>

theorem few_files_abort:
  assumes "xcresult_re_search so = Some x"
    and "py_getitem product ''files'' = Inr files" and "py_len files = Inr n"
  shows "(n \<le> 5 \<longrightarrow>
            check_code_coverage str (0, t, e) (0, so, se) (Some (PList [product])) s
              = Inl (AssertionError Too_Few_Files))
       \<and> (5 < n \<longrightarrow>
            check_code_coverage str (0, t, e) (0, so, se) (Some (PList [product])) s
              = and_then (py_iter files) (\<lambda>file_list.
                  and_then (coverage_files file_list []) (\<lambda>bad_files.
                    Inr (if bad_files = []
                         then chdir ''Example'' (chdir (rstrip t) (print_end [] ''Code coverage: '' s))
                         else print_bad_files str bad_files
                                (print (''Minimum code coverage of 0.8 ''
                                        @ ''not met by the following files:'')
                                   (chdir ''Example'' (chdir (rstrip t)
                                      (print_end [] ''Code coverage: '' s))))))))"
  unfolding check_code_coverage_reached [OF assms]
  by (auto simp: and_then_def split: sum.splits)

theorem few_files_abort_witness:
  "check_code_coverage (\<lambda>v. ''1.0'') (0, ''/r'', '''') (0, ''/tmp/T.xcresult'', '''')
     (Some (PList [PDict [(''files'', PList
        [cov_entry ''/r/JacquardSDK/A.swift'' 1, cov_entry ''/r/JacquardSDK/B.swift'' 1,
         cov_entry ''/r/JacquardSDK/C.swift'' 1, cov_entry ''/r/JacquardSDK/D.swift'' 1,
         cov_entry ''/r/JacquardSDK/E.swift'' 1])]])) (initial ''/'')
   = Inl (AssertionError Too_Few_Files)"
  using few_files_abort [where so = "''/tmp/T.xcresult''" and x = "''/tmp/T.xcresult''"
      and product = "PDict [(''files'', PList
        [cov_entry ''/r/JacquardSDK/A.swift'' 1, cov_entry ''/r/JacquardSDK/B.swift'' 1,
         cov_entry ''/r/JacquardSDK/C.swift'' 1, cov_entry ''/r/JacquardSDK/D.swift'' 1,
         cov_entry ''/r/JacquardSDK/E.swift'' 1])]"
      and files = "PList
        [cov_entry ''/r/JacquardSDK/A.swift'' 1, cov_entry ''/r/JacquardSDK/B.swift'' 1,
         cov_entry ''/r/JacquardSDK/C.swift'' 1, cov_entry ''/r/JacquardSDK/D.swift'' 1,
         cov_entry ''/r/JacquardSDK/E.swift'' 1]"
      and n = 5 and str = "\<lambda>v. ''1.0''" and t = "''/r''" and e = "''''" and se = "''''"
      and s = "initial ''/''"]
  by (simp add: greedy_until_def suffix_to_prefix)

text \<open>
  C4. An entry whose \<open>JacquardSDK/...\<close> path is in the allow-list is left out of the
  comparison with the threshold, whatever its \<open>lineCoverage\<close>: the loop over the files
  ends as it would without the entry; the failing-files list it returns is the list of
  the other entries that fail, and holds no path of the allow-list; and the whole check
  ends the same (same state, so same Readiness Flag, or same exception) when the entry
  is replaced by any other exempt entry, such as the same path with another coverage.
\<close>

theorem untestable_files_excluded:
  assumes "exempt entry"
  shows "coverage_files (pre @ entry # post) bad = coverage_files (pre @ post) bad
       \<and> (\<forall>bad_files. coverage_files (pre @ entry # post) [] = Inr bad_files
             \<longrightarrow> bad_files = failing_files (pre @ post)
               \<and> fst ` set bad_files \<inter> set untestable_files = {})
       \<and> (\<forall>entry' product product'.
             exempt entry'
             \<and> py_getitem product ''files'' = Inr (PList (pre @ entry # post))
             \<and> py_getitem product' ''files'' = Inr (PList (pre @ entry' # post))
             \<longrightarrow> check_code_coverage str toplevel xb (Some (PList [product])) s
                 = check_code_coverage str toplevel xb (Some (PList [product'])) s)"
proof -
  have skip: "coverage_files (pre @ en # post) b = coverage_files (pre @ post) b"
    if "exempt en" for en b
  proof -
    from that have "coverage_files (en # post) = coverage_files post"
      by (intro ext) (rule coverage_files_exempt)
    then show ?thesis by (simp add: coverage_files_append)
  qed
  have clean: "fst ` set (failing_files fs) \<inter> set untestable_files = {}" for fs
    by (induction fs)
       (auto simp: failing_files_def failing_def split: option.splits if_splits)
  have listed: "bad_files = failing_files (pre @ post)
                \<and> fst ` set bad_files \<inter> set untestable_files = {}"
    if "coverage_files (pre @ entry # post) [] = Inr bad_files" for bad_files
  proof -
    from that skip [OF assms] have "coverage_files (pre @ post) [] = Inr bad_files" by simp
    from coverage_files_Inr [OF this] clean show ?thesis by simp
  qed
  have same: "check_code_coverage str toplevel xb (Some (PList [product])) s
          = check_code_coverage str toplevel xb (Some (PList [product'])) s"
    if "exempt entry'"
      and "py_getitem product ''files'' = Inr (PList (pre @ entry # post))"
      and "py_getitem product' ''files'' = Inr (PList (pre @ entry' # post))"
    for entry' product product'
  proof -
    obtain ec t e where top: "toplevel = (ec, t, e)" by (cases toplevel) auto
    obtain xc so se where xb: "xb = (xc, so, se)" by (cases xb) auto
    show ?thesis
    proof (cases "ec = 0 \<and> xc = 0 \<and> xcresult_re_search so \<noteq> None")
      case True
      then obtain x where x: "xcresult_re_search so = Some x" by auto
      have l: "py_len (PList (pre @ entry # post)) = Inr (Suc (length pre + length post))"
        and l': "py_len (PList (pre @ entry' # post)) = Inr (Suc (length pre + length post))"
        by simp_all
      from True top xb show ?thesis
        by (simp add: check_code_coverage_reached [OF x that(2) l]
            check_code_coverage_reached [OF x that(3) l']
            skip [OF assms] skip [OF that(1)] and_then_def)
    next
      case False
      with top xb show ?thesis
        by (auto simp: check_code_coverage_def and_then_def cd_to_git_root_def Let_def
            split: option.splits)
    qed
  qed
  from skip [OF assms] listed same show ?thesis by blast
qed


theorem untestable_files_excluded_witness:
  "coverage_files [cov_entry ''/r/JacquardSDK/A.swift'' 1,
                   cov_entry ''/r/JacquardSDK/Protobuf/jacquard.pb.swift'' (1 / 10)] []
     = Inr []
   \<and> check_code_coverage (\<lambda>v. ''?'') (0, ''/r'', '''') (0, ''/tmp/T.xcresult'', '''')
       (Some (PList [PDict [(''files'', PList
          [cov_entry ''/r/JacquardSDK/A.swift'' 1,
           cov_entry ''/r/JacquardSDK/Protobuf/jacquard.pb.swift'' (1 / 10),
           cov_entry ''/r/JacquardSDK/B.swift'' 1, cov_entry ''/r/JacquardSDK/C.swift'' 1,
           cov_entry ''/r/JacquardSDK/D.swift'' 1, cov_entry ''/r/JacquardSDK/E.swift'' 1])]]))
       (initial ''/'')
     = Inr \<lparr>printed = ''Code coverage: '', cwd = ''/r/Example'', release_ready = True\<rparr>"
  using untestable_files_excluded
    [where entry = "cov_entry ''/r/JacquardSDK/Protobuf/jacquard.pb.swift'' (1 / 10)"
       and pre = "[cov_entry ''/r/JacquardSDK/A.swift'' 1]" and post = "[]" and bad = "[]"]
    untestable_files_excluded
    [where entry = "cov_entry ''/r/JacquardSDK/Protobuf/jacquard.pb.swift'' (1 / 10)"
       and pre = "[cov_entry ''/r/JacquardSDK/A.swift'' 1]"
       and post = "[cov_entry ''/r/JacquardSDK/B.swift'' 1, cov_entry ''/r/JacquardSDK/C.swift'' 1,
           cov_entry ''/r/JacquardSDK/D.swift'' 1, cov_entry ''/r/JacquardSDK/E.swift'' 1]"
       and bad = "[]"]
  by (simp add: exempt_def entry_path_def cov_entry_def path_re_search_def untestable_files_def
      and_then_def minimum_code_coverage_def check_code_coverage_def cd_to_git_root_def
      chdir_def resolve_def print_end_def rstrip_def is_space_def initial_def Let_def
      greedy_until_def suffix_to_prefix)

text \<open>
  C5. For an entry that is not exempt, the loop adds the entry to the failing-files list
  exactly when its \<open>lineCoverage\<close> is below the threshold, and a float is below it
  exactly when its value is strictly less than that of the float \<open>0.8\<close>. So the float
  \<open>0.8\<close> passes and the float \<open>0.79999\<close> fails (the two fractions are the doubles
  nearest to 0.8 and to 0.79999: doubles between 1/2 and 1 are \<open>1 / 2 ^ 53\<close> apart). A check
  that returns has cleared the Readiness Flag exactly when some entry is failing.
\<close>

theorem coverage_threshold:
  "(entry_path entry = Some path \<and> path \<notin> set untestable_files
      \<and> entry_coverage entry = Some coverage \<and> below_minimum coverage = Inr below
      \<longrightarrow> coverage_files (entry # files) bad
            = coverage_files files (if below then bad @ [(path, coverage)] else bad))
   \<and> below_minimum (PFloat (Finite r)) = Inr (r < minimum_code_coverage)
   \<and> below_minimum (PFloat (Finite minimum_code_coverage)) = Inr False
   \<and> below_minimum (PFloat (Finite float_0_79999)) = Inr True
   \<and> \<bar>minimum_code_coverage - 8 / 10\<bar> \<le> 1 / 2 ^ 54
   \<and> \<bar>float_0_79999 - 79999 / 100000\<bar> \<le> 1 / 2 ^ 54
   \<and> (check_code_coverage str toplevel xb report s = Inr s'
        \<longrightarrow> release_ready s'
            = (release_ready s \<and> failing_files (coverage_entries report) = []))"
  using coverage_files_compared [of entry path coverage below files bad]
    check_code_coverage_flag [of str toplevel xb report s s']
  by (simp add: minimum_code_coverage_def float_0_79999_def)

theorem coverage_threshold_witness:
  "coverage_files [cov_entry ''/r/JacquardSDK/A.swift'' minimum_code_coverage,
                   cov_entry ''/r/JacquardSDK/B.swift'' float_0_79999] []
     = Inr [(''JacquardSDK/B.swift'', PFloat (Finite float_0_79999))]"
  using coverage_threshold
     [where entry = "cov_entry ''/r/JacquardSDK/A.swift'' minimum_code_coverage"
        and path = "''JacquardSDK/A.swift''" and coverage = "PFloat (Finite minimum_code_coverage)"
        and below = False and bad = "[]"
        and files = "[cov_entry ''/r/JacquardSDK/B.swift'' float_0_79999]"]
    coverage_threshold
     [where entry = "cov_entry ''/r/JacquardSDK/B.swift'' float_0_79999"
        and path = "''JacquardSDK/B.swift''" and coverage = "PFloat (Finite float_0_79999)"
        and below = True and bad = "[]" and files = "[]"]
  by (simp add: entry_path_def entry_coverage_def cov_entry_def path_re_search_def
      untestable_files_def)

subsection \<open>The whole script\<close>

lemma run_checks_steps: "run_checks str t s = run_steps (steps str t) s"
  by (simp add: run_checks_def steps_def and_then_def split: sum.splits)

lemma run_steps_append:
  "run_steps (fs @ gs) s = and_then (run_steps fs s) (run_steps gs)"
  by (induction fs arbitrary: s) (auto simp: and_then_def split: sum.splits)

lemma step_flag:
  assumes "f \<in> set (steps str t)" and "f s = Inr s'"
  shows "release_ready s' \<longrightarrow> release_ready s"
  using assms
  by (auto simp: steps_def check_pre_commit_flag check_swift_format_flag pod_install_flag
      check_documentation_percentage_flag check_code_coverage_flag check_todo_count_flag)

lemma run_steps_flag:
  assumes "set fs \<subseteq> set (steps str t)" and "run_steps fs s = Inr s'" and "\<not> release_ready s"
  shows "\<not> release_ready s'"
  using assms
proof (induction fs arbitrary: s)
  case Nil
  then show ?case by simp
next
  case (Cons f fs)
  from Cons.prems(2) obtain s1 where f: "f s = Inr s1" and rest: "run_steps fs s1 = Inr s'"
    by (auto simp: and_then_def split: sum.splits)
  from Cons.prems(1) have "f \<in> set (steps str t)" by simp
  from step_flag [OF this f] Cons.prems(3) have "\<not> release_ready s1" by simp
  with Cons.IH [OF _ rest] Cons.prems(1) show ?case by simp
qed

lemma run_checks_flag:
  assumes "run_checks str t s = Inr s'"
  shows "release_ready s' =
           (release_ready s \<and> pre_commit_passed t \<and> lint_passed t
            \<and> documentation_complete t \<and> coverage_met t)"
proof -
  from assms obtain s1 s2 s3 s4 s5 s6 where
    1: "check_pre_commit (pre_commit_root t) (pre_commit_sh t) s = Inr s1" and
    2: "check_swift_format (swift_format_root t) (swift_format_lint t) s1 = Inr s2" and
    3: "pod_install (pod_root t) (pod t) s2 = Inr s3" and
    4: "check_documentation_percentage (jazzy_root t) (jazzy t) s3 = Inr s4" and
    5: "check_code_coverage str (coverage_root t) (xcodebuild t) (xccov_report t) s4 = Inr s5" and
    6: "check_todo_count ''*.swift'' (todo_swift_root t) (todo_swift_without t)
          (todo_swift_with t) s5 = Inr s6" and
    7: "check_todo_count ''*.md'' (todo_md_root t) (todo_md_without t) (todo_md_with t) s6 = Inr s'"
    by (auto simp: run_checks_def and_then_def split: sum.splits)
  from check_pre_commit_flag [OF 1] check_swift_format_flag [OF 2] pod_install_flag [OF 3]
    check_documentation_percentage_flag [OF 4] check_code_coverage_flag [OF 5]
    check_todo_count_flag [OF 6] check_todo_count_flag [OF 7]
  show ?thesis
    by (simp add: pre_commit_passed_def lint_passed_def documentation_complete_def
        coverage_met_def)
qed

text \<open>
  C1. Whatever the tools answer, if the script reaches its end then the Readiness Flag is
  true there if and only if every gate check passed: the pre-commit script exited with
  0, the linter reported nothing but ignored lines, the documentation percentage is 100
  and no entry of the coverage report is failing (the dependency install, which only
  asserts, has then succeeded). The exit code is 0 when the flag is true and 1 when it is
  false, and a TODO count that returns leaves the flag as it found it.
\<close>

theorem readiness_flag_and_exit_code:
  assumes "release_readiness str t dir = Inr (code, s)"
  shows "release_ready s = (pre_commit_passed t \<and> lint_passed t
                            \<and> documentation_complete t \<and> coverage_met t)
       \<and> code = (if release_ready s then 0 else 1)
       \<and> (\<forall>pattern toplevel without_bug with_bug s0 s1.
             check_todo_count pattern toplevel without_bug with_bug s0 = Inr s1
             \<longrightarrow> release_ready s1 = release_ready s0)"
proof -
  from assms obtain s7 where run: "run_checks str t (initial dir) = Inr s7"
    and fin: "(code, s) = (if release_ready s7
         then (0, print ''Congratulations, the repository is release ready!'' s7)
         else (1, print ''The repository is not release ready. See errors above.'' s7))"
    by (auto simp: release_readiness_def and_then_def split: sum.splits if_splits)
  from fin have "release_ready s = release_ready s7" and "code = (if release_ready s7 then 0 else 1)"
    by (auto simp: print_def print_end_def split: if_splits)
  with run_checks_flag [OF run] check_todo_count_flag show ?thesis
    by (simp add: initial_def)
qed

text \<open>
  C6. The Readiness Flag starts true; no step of the script turns a false flag into a
  true one; and if the flag is false after any number of the seven steps, then it is
  false when the script ends, which then exits with code 1.
\<close>

theorem readiness_flag_monotonic:
  "release_ready (initial dir)
   \<and> (\<forall>f\<in>set (steps str t). \<forall>s s'. f s = Inr s' \<and> \<not> release_ready s \<longrightarrow> \<not> release_ready s')
   \<and> (\<forall>k s_k code s_end.
         run_steps (take k (steps str t)) (initial dir) = Inr s_k \<and> \<not> release_ready s_k
         \<and> release_readiness str t dir = Inr (code, s_end)
         \<longrightarrow> \<not> release_ready s_end \<and> code = 1)"
proof (intro conjI ballI allI impI)
  show "release_ready (initial dir)" by (simp add: initial_def)
next
  fix f s s' assume "f \<in> set (steps str t)" and "f s = Inr s' \<and> \<not> release_ready s"
  with step_flag show "\<not> release_ready s'" by blast
next
  fix k s_k code s_end
  assume a: "run_steps (take k (steps str t)) (initial dir) = Inr s_k \<and> \<not> release_ready s_k
         \<and> release_readiness str t dir = Inr (code, s_end)"
  then obtain s7 where run: "run_checks str t (initial dir) = Inr s7"
    and fin: "(code, s_end) = (if release_ready s7
         then (0, print ''Congratulations, the repository is release ready!'' s7)
         else (1, print ''The repository is not release ready. See errors above.'' s7))"
    by (auto simp: release_readiness_def and_then_def split: sum.splits if_splits)
  have "run_steps (take k (steps str t) @ drop k (steps str t)) (initial dir) = Inr s7"
    using run by (simp add: run_checks_steps)
  with a have rest: "run_steps (drop k (steps str t)) s_k = Inr s7"
    by (simp only: run_steps_append) (simp add: and_then_def)
  have "set (drop k (steps str t)) \<subseteq> set (steps str t)" by (rule set_drop_subset)
  from run_steps_flag [OF this rest] a have "\<not> release_ready s7" by simp
  with fin show "\<not> release_ready s_end" and "code = 1"
    by (auto simp: print_def print_end_def)
qed

subsection \<open>A run of the script on sample answers\<close>

lemmas evaluation =
  release_readiness_def run_checks_def check_pre_commit_def check_swift_format_def
  pod_install_def check_documentation_percentage_def check_code_coverage_def
  check_todo_count_def cd_to_git_root_def and_then_def chdir_def resolve_def print_def
  print_end_def initial_def Let_def rstrip_def strip_def is_space_def splitlines_def
  is_linebreak_def ignore_re_search_def path_re_search_def percentage_re_search_def
  is_digit_def greedy_until_def suffix_to_prefix repr_def repr_char_def
  sample_tools_def sample_report_def cov_entry_def untestable_files_def
  minimum_code_coverage_def

lemma sample_run:
  "\<exists>s. release_readiness (\<lambda>v. ''?'') sample_tools ''/'' = Inr (0, s)"
  by (simp add: evaluation)

lemma sample_run_failed:
  "\<exists>s. release_readiness (\<lambda>v. ''?'') (sample_tools\<lparr>pre_commit_sh := (1, ''bad'', [])\<rparr>) ''/''
         = Inr (1, s)"
  by (simp add: evaluation)

theorem readiness_flag_and_exit_code_witness:
  "(\<exists>s. release_readiness (\<lambda>v. ''?'') sample_tools ''/'' = Inr (0, s) \<and> release_ready s)
   \<and> (\<exists>s. release_readiness (\<lambda>v. ''?'') (sample_tools\<lparr>pre_commit_sh := (1, ''bad'', [])\<rparr>) ''/''
          = Inr (1, s) \<and> \<not> release_ready s)"
proof -
  from sample_run obtain s where
    s: "release_readiness (\<lambda>v. ''?'') sample_tools ''/'' = Inr (0, s)" ..
  from sample_run_failed obtain s' where
    s': "release_readiness (\<lambda>v. ''?'') (sample_tools\<lparr>pre_commit_sh := (1, ''bad'', [])\<rparr>) ''/''
         = Inr (1, s')" ..
  from readiness_flag_and_exit_code [OF s] have "release_ready s" by (simp split: if_splits)
  moreover from readiness_flag_and_exit_code [OF s'] have "\<not> release_ready s'"
    by (simp split: if_splits)
  ultimately show ?thesis using s s' by blast
qed

theorem readiness_flag_monotonic_witness:
  "\<exists>s. release_readiness (\<lambda>v. ''?'') (sample_tools\<lparr>pre_commit_sh := (1, ''bad'', [])\<rparr>) ''/''
         = Inr (1, s) \<and> \<not> release_ready s"
proof -
  from sample_run_failed obtain s where
    s: "release_readiness (\<lambda>v. ''?'') (sample_tools\<lparr>pre_commit_sh := (1, ''bad'', [])\<rparr>) ''/''
         = Inr (1, s)" ..
  have "\<exists>s1. run_steps (take 1 (steps (\<lambda>v. ''?'') (sample_tools\<lparr>pre_commit_sh := (1, ''bad'', [])\<rparr>)))
           (initial ''/'') = Inr s1 \<and> \<not> release_ready s1"
    by (simp add: steps_def evaluation)
  then obtain s1 where
    "run_steps (take 1 (steps (\<lambda>v. ''?'') (sample_tools\<lparr>pre_commit_sh := (1, ''bad'', [])\<rparr>)))
           (initial ''/'') = Inr s1 \<and> \<not> release_ready s1" ..
  with s readiness_flag_monotonic [of "''/''" "\<lambda>v. ''?''" "sample_tools\<lparr>pre_commit_sh := (1, ''bad'', [])\<rparr>"]
  have "\<not> release_ready s" by blast
  with s show ?thesis by blast
qed

section \<open>Properties of both scripts, and of the Build Stamper\<close>

lemma cd_to_git_root_fails:
  "exit_code \<noteq> 0 \<Longrightarrow>
   cd_to_git_root (exit_code, stdout, stderr) s
     = Inl (AssertionError (Not_In_Repository exit_code stderr))"
  by (simp add: cd_to_git_root_def)

text \<open>
  C7. Let a root query exit with a code other than 0. Then the Build Stamper ends with a
  failed assertion (that of \<open>cd_to_git_root\<close> when its three earlier queries succeeded)
  and its state, the files with it, is as it was at the start: the output file is
  neither made nor changed. Every check of the Readiness Checker that
  makes the query fails the assertion of \<open>cd_to_git_root\<close>; the script does so at once
  when its first query fails, and it never reaches its end when any of its seven
  queries fails.
\<close>

theorem no_root_aborts:
  assumes "exit_code \<noteq> 0"
  shows "(\<exists>a. update_build_hash which rev_parse show_date (exit_code, stdout, stderr) st
                = (Some (AssertionError a), st))
       \<and> update_build_hash (0, w, e0) (0, h, e1) (0, d, e2) (exit_code, stdout, stderr) st
           = (Some (AssertionError (Not_In_Repository exit_code stderr)), st)
       \<and> check_pre_commit (exit_code, stdout, stderr) r1 s
           = Inl (AssertionError (Not_In_Repository exit_code stderr))
       \<and> check_swift_format (exit_code, stdout, stderr) r1 s
           = Inl (AssertionError (Not_In_Repository exit_code stderr))
       \<and> pod_install (exit_code, stdout, stderr) r1 s
           = Inl (AssertionError (Not_In_Repository exit_code stderr))
       \<and> check_documentation_percentage (exit_code, stdout, stderr) r1 s
           = Inl (AssertionError (Not_In_Repository exit_code stderr))
       \<and> check_code_coverage str (exit_code, stdout, stderr) r1 report s
           = Inl (AssertionError (Not_In_Repository exit_code stderr))
       \<and> check_todo_count pattern (exit_code, stdout, stderr) r1 r2 s
           = Inl (AssertionError (Not_In_Repository exit_code stderr))
       \<and> (\<forall>t. pre_commit_root t = (exit_code, stdout, stderr)
             \<longrightarrow> release_readiness str t dir
                 = Inl (AssertionError (Not_In_Repository exit_code stderr)))
       \<and> (\<forall>t. (exit_code, stdout, stderr)
                 \<in> set [pre_commit_root t, swift_format_root t, pod_root t, jazzy_root t,
                        coverage_root t, todo_swift_root t, todo_md_root t]
             \<longrightarrow> (\<exists>e. release_readiness str t dir = Inl e))"
proof -
  note f = cd_to_git_root_fails [OF assms]
  have c1: "check_pre_commit (exit_code, stdout, stderr) r s
           = Inl (AssertionError (Not_In_Repository exit_code stderr))" for r s
    by (simp add: check_pre_commit_def and_then_def f)
  have c2: "check_swift_format (exit_code, stdout, stderr) r s
           = Inl (AssertionError (Not_In_Repository exit_code stderr))" for r s
    by (simp add: check_swift_format_def and_then_def f)
  have c3: "pod_install (exit_code, stdout, stderr) r s
           = Inl (AssertionError (Not_In_Repository exit_code stderr))" for r s
    by (simp add: pod_install_def and_then_def f)
  have c4: "check_documentation_percentage (exit_code, stdout, stderr) r s
           = Inl (AssertionError (Not_In_Repository exit_code stderr))" for r s
    by (simp add: check_documentation_percentage_def and_then_def f)
  have c5: "check_code_coverage str (exit_code, stdout, stderr) r rep s
           = Inl (AssertionError (Not_In_Repository exit_code stderr))" for r rep s
    by (simp add: check_code_coverage_def and_then_def f)
  have c6: "check_todo_count pat (exit_code, stdout, stderr) r r' s
           = Inl (AssertionError (Not_In_Repository exit_code stderr))" for pat r r' s
    by (simp add: check_todo_count_def and_then_def f)
  have stamp: "\<exists>a. update_build_hash which rev_parse show_date (exit_code, stdout, stderr) st
                = (Some (AssertionError a), st)"
    by (cases which; cases rev_parse; cases show_date)
       (simp add: update_build_hash_def which_git_def git_sha_def git_date_def and_then_def f)
  have first: "release_readiness str t dir
                 = Inl (AssertionError (Not_In_Repository exit_code stderr))"
    if "pre_commit_root t = (exit_code, stdout, stderr)" for t
    using that by (simp add: release_readiness_def run_checks_def c1 and_then_def)
  have any: "\<exists>e. release_readiness str t dir = Inl e"
    if "(exit_code, stdout, stderr)
                 \<in> set [pre_commit_root t, swift_format_root t, pod_root t, jazzy_root t,
                        coverage_root t, todo_swift_root t, todo_md_root t]" for t
  proof (rule ccontr)
    assume "\<not> (\<exists>e. release_readiness str t dir = Inl e)"
    then obtain c s' where "release_readiness str t dir = Inr (c, s')"
      by (cases "release_readiness str t dir") auto
    then obtain s7 where "run_checks str t (initial dir) = Inr s7"
      by (auto simp: release_readiness_def and_then_def split: sum.splits)
    then obtain s0 s1 s2 s3 s4 s5 s6 where
      "check_pre_commit (pre_commit_root t) (pre_commit_sh t) s0 = Inr s1"
      "check_swift_format (swift_format_root t) (swift_format_lint t) s1 = Inr s2"
      "pod_install (pod_root t) (pod t) s2 = Inr s3"
      "check_documentation_percentage (jazzy_root t) (jazzy t) s3 = Inr s4"
      "check_code_coverage str (coverage_root t) (xcodebuild t) (xccov_report t) s4 = Inr s5"
      "check_todo_count ''*.swift'' (todo_swift_root t) (todo_swift_without t)
          (todo_swift_with t) s5 = Inr s6"
      "check_todo_count ''*.md'' (todo_md_root t) (todo_md_without t) (todo_md_with t) s6 = Inr s7"
      by (auto simp: run_checks_def and_then_def split: sum.splits)
    with that c1 c2 c3 c4 c5 c6 show False
      by (elim disjE | simp)+
  qed
  have reached: "update_build_hash (0, w, e0) (0, h, e1) (0, d, e2) (exit_code, stdout, stderr) st
           = (Some (AssertionError (Not_In_Repository exit_code stderr)), st)"
    by (simp add: update_build_hash_def which_git_def git_sha_def git_date_def and_then_def f)
  from stamp reached first any c1 c2 c3 c4 c5 c6 show ?thesis by blast
qed

theorem no_root_aborts_witness:
  "update_build_hash (0, ''/usr/bin/git'', []) (0, ''abc1234'', [])
     (0, ''2021-01-01 00:00:00 +0000'', []) (128, [], ''fatal: not a git repository'')
     \<lparr>printed = [], cwd = ''/x'', disk = [''/r/Example/JacquardSDK/BuildHash.json'' \<mapsto> ''old'']\<rparr>
   = (Some (AssertionError (Not_In_Repository 128 ''fatal: not a git repository'')),
      \<lparr>printed = [], cwd = ''/x'', disk = [''/r/Example/JacquardSDK/BuildHash.json'' \<mapsto> ''old'']\<rparr>)
   \<and> release_readiness (\<lambda>v. ''?'')
        (sample_tools\<lparr>pre_commit_root := (128, [], ''fatal: not a git repository'')\<rparr>) ''/x''
      = Inl (AssertionError (Not_In_Repository 128 ''fatal: not a git repository''))"
  using no_root_aborts [where exit_code = 128 and stdout = "[]"
      and stderr = "''fatal: not a git repository''" and which = "(0, ''/usr/bin/git'', [])"
      and rev_parse = "(0, ''abc1234'', [])" and show_date = "(0, ''2021-01-01 00:00:00 +0000'', [])"
      and st = "\<lparr>printed = [], cwd = ''/x'', disk = [''/r/Example/JacquardSDK/BuildHash.json'' \<mapsto> ''old'']\<rparr>"
      and str = "\<lambda>v. ''?''" and dir = "''/x''"]
  by (simp add: update_build_hash_def which_git_def git_sha_def git_date_def and_then_def
      cd_to_git_root_def)

subsection \<open>The file that the stamper writes\<close>

lemma scan_string_plain:
  "plain s \<Longrightarrow> scan_string (s @ dquote # rest) = Inr (s, rest)"
  by (induction s) (auto simp: plain_def)

lemma lex_build_hash_json:
  assumes "plain sha" and "plain date"
  shows "lex (build_hash_json sha date)
         = Inr [LBrace, TString ''buildHash'', Colon, TString sha, Comma,
                TString ''buildDate'', Colon, TString date, RBrace]"
  using scan_string_plain [OF assms(1)] scan_string_plain [OF assms(2)]
  by (simp add: build_hash_json_def next_token_def is_json_ws_def is_digit_def)

lemma json_loads_build_hash_json:
  assumes "plain sha" and "plain date"
  shows "json_loads (build_hash_json sha date)
         = Inr (JObject [(''buildHash'', JString sha), (''buildDate'', JString date)])"
  by (simp add: json_loads_def lex_build_hash_json [OF assms])

lemma update_build_hash_writes:
  "update_build_hash (0, w, e0) (0, so1, e1) (0, so2, e2) (0, t, e3) st
   = (None, write_file build_hash_path (build_hash_json (rstrip so1) (rstrip so2))
              (chdir (rstrip t) st))"
  by (simp add: update_build_hash_def which_git_def git_sha_def git_date_def and_then_def
      cd_to_git_root_def)

text \<open>
  C2. When the queries succeed and version control answers \<open>abc1234\<close> and
  \<open>2021-01-01 00:00:00 +0000\<close> (each followed by a newline, which \<open>rstrip\<close> removes),
  the stamper ends without an exception, the file \<open>Example/JacquardSDK/BuildHash.json\<close>
  under the repository root holds the text of the f-string, and that text read as JSON is
  the object with the two members \<open>buildHash\<close> and \<open>buildDate\<close>, those two strings as
  their values, and nothing else.
\<close>

theorem stamp_of_abc1234:
  "\<exists>st'. update_build_hash (0, w, e0) (0, ''abc1234'' @ [newline], e1)
            (0, ''2021-01-01 00:00:00 +0000'' @ [newline], e2) (0, t, e3) st = (None, st')
     \<and> disk st' (resolve (cwd st') build_hash_path)
         = Some (build_hash_json ''abc1234'' ''2021-01-01 00:00:00 +0000'')
     \<and> json_loads (build_hash_json ''abc1234'' ''2021-01-01 00:00:00 +0000'')
         = Inr (JObject [(''buildHash'', JString ''abc1234''),
                         (''buildDate'', JString ''2021-01-01 00:00:00 +0000'')])"
proof -
  have "plain ''abc1234''" and "plain ''2021-01-01 00:00:00 +0000''"
    by (simp_all add: plain_def)
  from json_loads_build_hash_json [OF this] show ?thesis
    by (simp add: update_build_hash_writes write_file_def chdir_def rstrip_def is_space_def)
qed

theorem stamp_of_abc1234_witness:
  "\<exists>st'. update_build_hash (0, ''/usr/bin/git'' @ [newline], []) (0, ''abc1234'' @ [newline], [])
            (0, ''2021-01-01 00:00:00 +0000'' @ [newline], []) (0, ''/r'' @ [newline], [])
            \<lparr>printed = [], cwd = ''/r/Scripts'', disk = Map.empty\<rparr> = (None, st')
     \<and> cwd st' = ''/r''
     \<and> disk st' ''/r/Example/JacquardSDK/BuildHash.json''
         = Some (build_hash_json ''abc1234'' ''2021-01-01 00:00:00 +0000'')
     \<and> json_loads (build_hash_json ''abc1234'' ''2021-01-01 00:00:00 +0000'')
         = Inr (JObject [(''buildHash'', JString ''abc1234''),
                         (''buildDate'', JString ''2021-01-01 00:00:00 +0000'')])"
  using stamp_of_abc1234 [where w = "''/usr/bin/git'' @ [newline]" and ?e0.0 = "[]"
      and ?e1.0 = "[]" and ?e2.0 = "[]" and ?e3.0 = "[]" and t = "''/r'' @ [newline]"
      and st = "\<lparr>printed = [], cwd = ''/r/Scripts'', disk = Map.empty\<rparr>"]
  by (auto simp: update_build_hash_writes write_file_def chdir_def resolve_def rstrip_def
      is_space_def build_hash_path_def)

text \<open>
  C9. For every revision hash and commit date with no double quote, no backslash and no
  control character (so no newline), the text that the stamper writes reads as JSON, as
  the object whose only members are \<open>buildHash\<close> and \<open>buildDate\<close> with those strings as
  values. The values are put into the text as they are: for the hash \<open>a"b\<close> the text
  written is not JSON.
\<close>

theorem stamp_is_json_without_escapes:
  "(plain sha \<and> plain date \<longrightarrow>
      json_loads (build_hash_json sha date)
        = Inr (JObject [(''buildHash'', JString sha), (''buildDate'', JString date)]))
   \<and> (plain (rstrip so1) \<and> plain (rstrip so2) \<longrightarrow>
      (\<exists>st'. update_build_hash (0, w, e0) (0, so1, e1) (0, so2, e2) (0, t, e3) st = (None, st')
         \<and> disk st' (resolve (cwd st') build_hash_path)
             = Some (build_hash_json (rstrip so1) (rstrip so2))
         \<and> json_loads (build_hash_json (rstrip so1) (rstrip so2))
             = Inr (JObject [(''buildHash'', JString (rstrip so1)),
                             (''buildDate'', JString (rstrip so2))])))
   \<and> (\<exists>st'. update_build_hash (0, w, e0) (0, [CHR ''a'', dquote, CHR ''b'', newline], e1)
                (0, ''2021-01-01 00:00:00 +0000'' @ [newline], e2) (0, t, e3) st = (None, st')
         \<and> disk st' (resolve (cwd st') build_hash_path)
             = Some (build_hash_json [CHR ''a'', dquote, CHR ''b''] ''2021-01-01 00:00:00 +0000'')
         \<and> json_loads (build_hash_json [CHR ''a'', dquote, CHR ''b''] ''2021-01-01 00:00:00 +0000'')
             = Inl Not_JSON)"
proof (intro conjI impI)
  assume "plain sha \<and> plain date"
  then show "json_loads (build_hash_json sha date)
        = Inr (JObject [(''buildHash'', JString sha), (''buildDate'', JString date)])"
    by (simp add: json_loads_build_hash_json)
next
  assume "plain (rstrip so1) \<and> plain (rstrip so2)"
  then have "json_loads (build_hash_json (rstrip so1) (rstrip so2))
             = Inr (JObject [(''buildHash'', JString (rstrip so1)),
                             (''buildDate'', JString (rstrip so2))])"
    by (simp add: json_loads_build_hash_json)
  then show "\<exists>st'. update_build_hash (0, w, e0) (0, so1, e1) (0, so2, e2) (0, t, e3) st = (None, st')
         \<and> disk st' (resolve (cwd st') build_hash_path)
             = Some (build_hash_json (rstrip so1) (rstrip so2))
         \<and> json_loads (build_hash_json (rstrip so1) (rstrip so2))
             = Inr (JObject [(''buildHash'', JString (rstrip so1)),
                             (''buildDate'', JString (rstrip so2))])"
    by (simp add: update_build_hash_writes write_file_def chdir_def)
next
  have "json_loads (build_hash_json [CHR ''a'', dquote, CHR ''b''] ''2021-01-01 00:00:00 +0000'')
             = Inl Not_JSON"
    by (simp add: json_loads_def build_hash_json_def next_token_def is_json_ws_def is_digit_def
        scan_literal_def)
  then show "\<exists>st'. update_build_hash (0, w, e0) (0, [CHR ''a'', dquote, CHR ''b'', newline], e1)
                (0, ''2021-01-01 00:00:00 +0000'' @ [newline], e2) (0, t, e3) st = (None, st')
         \<and> disk st' (resolve (cwd st') build_hash_path)
             = Some (build_hash_json [CHR ''a'', dquote, CHR ''b''] ''2021-01-01 00:00:00 +0000'')
         \<and> json_loads (build_hash_json [CHR ''a'', dquote, CHR ''b''] ''2021-01-01 00:00:00 +0000'')
             = Inl Not_JSON"
    by (simp add: update_build_hash_writes write_file_def chdir_def rstrip_def is_space_def)
qed

theorem stamp_is_json_without_escapes_witness:
  "json_loads (build_hash_json ''0f3a9c1'' ''2021-06-30 12:00:00 -0700'')
     = Inr (JObject [(''buildHash'', JString ''0f3a9c1''),
                     (''buildDate'', JString ''2021-06-30 12:00:00 -0700'')])"
  using stamp_is_json_without_escapes [where ?so1.0 = "''0f3a9c1'' @ [newline]"
      and ?so2.0 = "''2021-06-30 12:00:00 -0700'' @ [newline]"
      and w = "[]" and ?e0.0 = "[]" and ?e1.0 = "[]" and ?e2.0 = "[]" and ?e3.0 = "[]"
      and t = "''/r''" and st = "\<lparr>printed = [], cwd = ''/'', disk = Map.empty\<rparr>"]
  by (auto simp: rstrip_def is_space_def plain_def)

end
